theory Spec2Isabelle
  imports Complex_Main
begin

text \<open>
  A model of the frame pipeline of the video-call demo: the metrics kept by the virtual
  background service, the factory that selects a segmentation adapter, the MediaPipe and
  BodyPix adapters, the capture loop, enabling and disabling the effect, and the reload
  of the background model that follows a selection in the model lab.

  JavaScript objects are records, and a field that can be \<^verbatim>\<open>null\<close> is an option.
  Numbers are reals, and clock readings and video times are arguments. An asynchronous
  function is cut at its suspension points: the part run at the call, and the part run
  when the awaited promise settles, with the outcome of the promise as an argument. What
  the code does to the page, the browser and the adapter is recorded as a list of effects.
\<close>

section \<open>Metrics aggregator of the virtual background service\<close>

text \<open>
  The virtual background service keeps its performance figures in closure variables:
  \<^verbatim>\<open>lastFrameTime\<close>, \<^verbatim>\<open>frameTimes\<close>, \<^verbatim>\<open>segmentationTimes\<close>, the three session totals and
  \<^verbatim>\<open>sessionStartTime\<close>. Times are JavaScript numbers read from \<^verbatim>\<open>performance.now()\<close>;
  they are modelled as reals, and every clock reading is an explicit argument.
\<close>

definition MAX_MEASUREMENTS :: nat where
  "MAX_MEASUREMENTS = 30"

record metrics =
  lastFrameTime :: real
  frameTimes :: "real list"
  segmentationTimes :: "real list"
  totalProcessedFrames :: nat
  totalSegmentationTime :: real
  totalFrameProcessingTime :: real
  sessionStartTime :: "real option"

text \<open>The values the closure variables are declared with.\<close>

definition initialMetrics :: metrics where
  "initialMetrics =
     \<lparr> lastFrameTime = 0, frameTimes = [], segmentationTimes = [],
       totalProcessedFrames = 0, totalSegmentationTime = 0,
       totalFrameProcessingTime = 0, sessionStartTime = None \<rparr>"

text \<open>
  \<^verbatim>\<open>xs.push(x); if (xs.length > MAX_MEASUREMENTS) { xs.shift(); }\<close>:
  append at the end, then drop the first element when the array grew past the bound.
\<close>

definition pushShift :: "real \<Rightarrow> real list \<Rightarrow> real list" where
  "pushShift x xs =
     (let ys = xs @ [x] in if length ys > MAX_MEASUREMENTS then tl ys else ys)"

text \<open>
  \<^verbatim>\<open>updatePerformanceMetrics(segmentationTime, frameTime)\<close>; \<open>now\<close> is the value
  \<^verbatim>\<open>performance.now()\<close> returns inside the call. The delta is recorded only when
  \<^verbatim>\<open>lastFrameTime\<close> is truthy, that is, not zero.
\<close>

definition updatePerformanceMetrics :: "real \<Rightarrow> real \<Rightarrow> real \<Rightarrow> metrics \<Rightarrow> metrics" where
  "updatePerformanceMetrics segmentationTime frameTime now m =
     m \<lparr> segmentationTimes := pushShift segmentationTime (segmentationTimes m),
         frameTimes := (if lastFrameTime m \<noteq> 0
                        then pushShift (now - lastFrameTime m) (frameTimes m)
                        else frameTimes m),
         lastFrameTime := now,
         totalProcessedFrames := totalProcessedFrames m + 1,
         totalSegmentationTime := totalSegmentationTime m + segmentationTime,
         totalFrameProcessingTime := totalFrameProcessingTime m + frameTime \<rparr>"

definition resetMetrics :: "real \<Rightarrow> metrics \<Rightarrow> metrics" where
  "resetMetrics now m =
     m \<lparr> frameTimes := [], segmentationTimes := [], lastFrameTime := 0,
         totalProcessedFrames := 0, totalSegmentationTime := 0,
         totalFrameProcessingTime := 0, sessionStartTime := Some now \<rparr>"

text \<open>
  One recorded sample: the two arguments of \<^verbatim>\<open>updatePerformanceMetrics\<close> and the clock
  reading taken inside it.
\<close>

record sample =
  sampleSegmentationTime :: real
  sampleFrameTime :: real
  sampleNow :: real

fun recordSamples :: "sample list \<Rightarrow> metrics \<Rightarrow> metrics" where
  "recordSamples [] m = m"
| "recordSamples (s # ss) m =
     recordSamples ss
       (updatePerformanceMetrics (sampleSegmentationTime s) (sampleFrameTime s) (sampleNow s) m)"

text \<open>
  What the specification calls the most recent \<open>n\<close> entries of a history, and the
  inter-frame deltas of a run of samples: the differences of consecutive clock readings.
\<close>

definition mostRecent :: "nat \<Rightarrow> 'a list \<Rightarrow> 'a list" where
  "mostRecent n xs = drop (length xs - n) xs"

definition interFrameDeltas :: "sample list \<Rightarrow> real list" where
  "interFrameDeltas ss = map2 (\<lambda>a b. sampleNow b - sampleNow a) ss (tl ss)"

text \<open>
  The deltas pushed from a state whose last clock reading was \<open>l\<close>, when no clock
  reading is zero.
\<close>

fun deltasFrom :: "real \<Rightarrow> sample list \<Rightarrow> real list" where
  "deltasFrom l [] = []"
| "deltasFrom l (s # ss) = (sampleNow s - l) # deltasFrom (sampleNow s) ss"




text \<open>
  A run of 31 samples, one more than the windows hold, taken 100 ms apart.
\<close>

definition exampleSamples :: "sample list" where
  "exampleSamples =
     map (\<lambda>n. \<lparr> sampleSegmentationTime = real n, sampleFrameTime = 2 * real n,
                 sampleNow = 100 * real n \<rparr>) [1..<32]"


section \<open>Background model factory\<close>

text \<open>
  \<^verbatim>\<open>BackgroundModelFactory\<close>. The table \<^verbatim>\<open>availableModels\<close> is an object literal; it is
  kept as an association list in the order of the literal. A missing \<^verbatim>\<open>description\<close>,
  \<^verbatim>\<open>variants\<close> or \<^verbatim>\<open>backend\<close> is \<open>None\<close> or the empty list.
\<close>

record variantInfo =
  variantName :: string
  resolution :: string
  simdRequired :: bool
  variantFps :: string
  variantBackend :: "string option"

record modelInfo =
  modelName :: string
  description :: "string option"
  variants :: "variantInfo list"
  isImplemented :: bool

definition availableModels :: "(string \<times> modelInfo) list" where
  "availableModels =
     [ (''mediapipe'',
          \<lparr> modelName = ''MediaPipe'',
            description = Some ''Google MediaPipe Selfie Segmentation'',
            variants = [], isImplemented = True \<rparr>),
       (''bodypix'',
          \<lparr> modelName = ''BodyPix'',
            description = Some ''TensorFlow.js BodyPix (640x360, ~11 FPS)'',
            variants = [], isImplemented = True \<rparr>),
       (''mlkit'',
          \<lparr> modelName = ''ML Kit'', description = None,
            variants =
              [ \<lparr> variantName = ''ML Kit WebAssembly'', resolution = ''256x256'',
                  simdRequired = False, variantFps = ''~9 FPS'', variantBackend = None \<rparr>,
                \<lparr> variantName = ''ML Kit WebAssembly SIMD'', resolution = ''256x256'',
                  simdRequired = True, variantFps = ''~17-19 FPS'', variantBackend = None \<rparr> ],
            isImplemented = False \<rparr>),
       (''meet'',
          \<lparr> modelName = ''Google Meet'', description = None,
            variants =
              [ \<lparr> variantName = ''Meet 256x144'', resolution = ''256x144'',
                  simdRequired = False, variantFps = ''~14-16 FPS'',
                  variantBackend = Some ''Canvas 2D + CPU'' \<rparr>,
                \<lparr> variantName = ''Meet 256x144 WebGL'', resolution = ''256x144'',
                  simdRequired = False, variantFps = ''~16 FPS'',
                  variantBackend = Some ''WebGL 2'' \<rparr>,
                \<lparr> variantName = ''Meet 256x144 SIMD'', resolution = ''256x144'',
                  simdRequired = True, variantFps = ''~26 FPS'',
                  variantBackend = Some ''Canvas 2D + CPU'' \<rparr>,
                \<lparr> variantName = ''Meet 256x144 SIMD WebGL'', resolution = ''256x144'',
                  simdRequired = True, variantFps = ''~31 FPS'',
                  variantBackend = Some ''WebGL 2'' \<rparr>,
                \<lparr> variantName = ''Meet 160x96'', resolution = ''160x96'',
                  simdRequired = False, variantFps = ''~29-35 FPS'', variantBackend = None \<rparr>,
                \<lparr> variantName = ''Meet 160x96 SIMD'', resolution = ''160x96'',
                  simdRequired = True, variantFps = ''~48-60 FPS'', variantBackend = None \<rparr> ],
            isImplemented = False \<rparr>) ]"

text \<open>
  The configuration object passed with a selection. Only \<^verbatim>\<open>config.simdRequired\<close> is ever
  read, for its truthiness; the default \<^verbatim>\<open>{}\<close> has it undefined, hence false.
\<close>

record config =
  configSimdRequired :: bool

definition emptyConfig :: config where
  "emptyConfig = \<lparr> configSimdRequired = False \<rparr>"

text \<open>
  The factory object. \<open>debugLog\<close> collects the messages handed to \<^verbatim>\<open>debugCallback\<close>, in
  order; the interpolated \<^verbatim>\<open>error.message\<close> of a failed import is left out of them.
\<close>

record factory =
  simdSupport :: bool
  webglSupport :: bool
  webgl2Support :: bool
  devicePerformance :: string
  userPreferredModel :: "string option"
  userPreferredConfig :: "config option"
  debugLog :: "string list"

definition newFactory :: factory where
  "newFactory =
     \<lparr> simdSupport = False, webglSupport = False, webgl2Support = False,
       devicePerformance = ''unknown'', userPreferredModel = None,
       userPreferredConfig = None, debugLog = [] \<rparr>"

definition debugCallback :: "string \<Rightarrow> factory \<Rightarrow> factory" where
  "debugCallback msg f = f \<lparr> debugLog := debugLog f @ [msg] \<rparr>"

text \<open>\<^verbatim>\<open>String.prototype.toLowerCase\<close> on the ASCII letters.\<close>

definition lowerChar :: "char \<Rightarrow> char" where
  "lowerChar c =
     (case map_of (zip ''ABCDEFGHIJKLMNOPQRSTUVWXYZ'' ''abcdefghijklmnopqrstuvwxyz'') c of
        Some d \<Rightarrow> d
      | None \<Rightarrow> c)"

definition toLowerCase :: "string \<Rightarrow> string" where
  "toLowerCase s = map lowerChar s"

text \<open>
  The property read \<^verbatim>\<open>this.availableModels[key]\<close>. A key of the table gives its
  entry. Any other key is looked up on \<^verbatim>\<open>Object.prototype\<close>: a name defined there
  gives a function or an object, which is truthy and has no \<^verbatim>\<open>isImplemented\<close>; every
  other key gives \<^verbatim>\<open>undefined\<close>.
\<close>

definition objectPrototypeKeys :: "string list" where
  "objectPrototypeKeys =
     [''constructor'', ''__defineGetter__'', ''__defineSetter__'', ''hasOwnProperty'',
      ''__lookupGetter__'', ''__lookupSetter__'', ''isPrototypeOf'', ''propertyIsEnumerable'',
      ''toString'', ''valueOf'', ''__proto__'', ''toLocaleString'']"

datatype tableEntry = OwnEntry modelInfo | InheritedValue | Undefined

definition lookupModel :: "string \<Rightarrow> tableEntry" where
  "lookupModel key =
     (case map_of availableModels key of
        Some info \<Rightarrow> OwnEntry info
      | None \<Rightarrow> if key \<in> set objectPrototypeKeys then InheritedValue else Undefined)"

text \<open>
  \<^verbatim>\<open>setUserPreferredModel(modelType, config)\<close>: three guards, each returning
  \<^verbatim>\<open>false\<close> after a debug message, then the assignment of the preference. An
  inherited value passes the first guard and fails the second, its
  \<^verbatim>\<open>isImplemented\<close> being \<^verbatim>\<open>undefined\<close>.
\<close>

definition setUserPreferredModel :: "string \<Rightarrow> config \<Rightarrow> factory \<Rightarrow> bool \<times> factory" where
  "setUserPreferredModel modelType cfg f =
     (case lookupModel (toLowerCase modelType) of
        Undefined \<Rightarrow>
          (False, debugCallback (''Model '' @ modelType @ '' not found in available models'') f)
      | InheritedValue \<Rightarrow>
          (False, debugCallback (''Model '' @ modelType @ '' is not implemented yet'') f)
      | OwnEntry info \<Rightarrow>
          if \<not> isImplemented info
          then (False, debugCallback (''Model '' @ modelType @ '' is not implemented yet'') f)
          else if configSimdRequired cfg \<and> \<not> simdSupport f
          then (False,
                debugCallback
                  (''Model '' @ modelType @ '' requires SIMD but browser doesn't support it'') f)
          else (True,
                debugCallback (''User preferred model set to '' @ modelType)
                  (f \<lparr> userPreferredModel := Some (toLowerCase modelType),
                       userPreferredConfig := Some cfg \<rparr>)))"

text \<open>\<^verbatim>\<open>resetUserPreferredModel()\<close>.\<close>

definition resetUserPreferredModel :: "factory \<Rightarrow> bool \<times> factory" where
  "resetUserPreferredModel f =
     (True,
      debugCallback ''User preferred model reset to auto''
        (f \<lparr> userPreferredModel := None, userPreferredConfig := None \<rparr>))"

text \<open>\<^verbatim>\<open>_selectOptimalModel()\<close>: every branch returns the same model type.\<close>

definition selectOptimalModel :: "factory \<Rightarrow> string" where
  "selectOptimalModel f =
     (if devicePerformance f = ''high'' \<and> simdSupport f then ''mediapipe''
      else if devicePerformance f = ''medium'' then ''mediapipe''
      else ''mediapipe'')"

text \<open>
  The adapter classes \<^verbatim>\<open>createModel\<close> can instantiate. \<open>importOk\<close> tells whether the
  dynamic \<^verbatim>\<open>import\<close> of a class's module succeeds; a failed import throws into the
  \<^verbatim>\<open>catch\<close> block, which tries MediaPipe once more and returns \<^verbatim>\<open>null\<close> when that
  fails too. A string is truthy when it is not empty.
\<close>

datatype adapterClass = MediaPipeModel | BodyPixModel

definition fallbackModel :: "(adapterClass \<Rightarrow> bool) \<Rightarrow> factory \<Rightarrow> adapterClass option \<times> factory" where
  "fallbackModel importOk f =
     (if importOk MediaPipeModel then (Some MediaPipeModel, f)
      else (None, debugCallback ''Could not create fallback model either'' f))"

definition importModel ::
  "adapterClass \<Rightarrow> string \<Rightarrow> (adapterClass \<Rightarrow> bool) \<Rightarrow> factory \<Rightarrow> adapterClass option \<times> factory" where
  "importModel cls modelType importOk f =
     (if importOk cls then (Some cls, f)
      else fallbackModel importOk (debugCallback (''Error creating model '' @ modelType) f))"

definition createModel ::
  "string \<Rightarrow> config \<Rightarrow> (adapterClass \<Rightarrow> bool) \<Rightarrow> factory \<Rightarrow> adapterClass option \<times> factory" where
  "createModel modelType options importOk f =
     (let preferred =
            (case userPreferredModel f of
               Some p \<Rightarrow> p \<noteq> [] \<and> modelType = ''auto''
             | None \<Rightarrow> False);
          modelType1 =
            (case userPreferredModel f of
               Some p \<Rightarrow> if preferred then p else modelType
             | None \<Rightarrow> modelType);
          f1 = (if preferred
                then debugCallback (''Using user preferred model: '' @ modelType1) f
                else f);
          f2 = debugCallback
                 (''Creating background model: '' @ modelType1 @ '' with options:'') f1;
          modelType2 = (if modelType1 = ''auto'' then selectOptimalModel f2 else modelType1);
          f3 = (if modelType1 = ''auto''
                then debugCallback (''Auto-selected model: '' @ modelType2) f2
                else f2)
      in if toLowerCase modelType2 = ''mediapipe''
         then importModel MediaPipeModel modelType2 importOk f3
         else if toLowerCase modelType2 = ''bodypix''
         then importModel BodyPixModel modelType2 importOk f3
         else importModel MediaPipeModel modelType2 importOk
                (debugCallback
                   (''Unknown model type: '' @ modelType2 @ '', falling back to MediaPipe'') f3))"

text \<open>
  A selection the specification calls unsupported: the model is not in the table, or it
  is not implemented, or the configuration needs SIMD on a host without it.
\<close>

definition unsupportedSelection :: "factory \<Rightarrow> string \<Rightarrow> config \<Rightarrow> bool" where
  "unsupportedSelection f modelType cfg =
     (case lookupModel (toLowerCase modelType) of
        Undefined \<Rightarrow> True
      | InheritedValue \<Rightarrow> True
      | OwnEntry info \<Rightarrow> \<not> isImplemented info \<or> (configSimdRequired cfg \<and> \<not> simdSupport f))"


section \<open>Segmentation adapters\<close>

text \<open>
  What an adapter leaves on the output canvas. \<open>results\<close> names a results object
  delivered by MediaPipe; an image is known by its source and its \<^verbatim>\<open>complete\<close> flag.
  The bookkeeping of canvas widths and heights is left out: no property below reads it.
\<close>

type_synonym results = nat

record image =
  imageSrc :: string
  complete :: bool

datatype picture =
    RawVideo
  | BlurredBackground results
  | ImageBackground results string

record frameResult =
  segmentationTime :: real
  totalTime :: real

subsection \<open>MediaPipeModel\<close>

text \<open>
  The fields of \<^verbatim>\<open>MediaPipeModel\<close>. A \<^verbatim>\<open>SelfieSegmentation\<close> instance and the promise of
  its loading are known by the number the instance got when it was created.
\<close>

record mediaPipe =
  segmenter :: "nat option"
  isInitialized :: bool
  lastResults :: "results option"
  processingFrame :: bool
  loadingPromise :: "nat option"
  skippedFrames :: nat
  maxSkippedFrames :: nat
  bufferCanvas :: bool
  isLowPowerMode :: bool
  lastProcessingTime :: real

definition newMediaPipe :: mediaPipe where
  "newMediaPipe =
     \<lparr> segmenter = None, isInitialized = False, lastResults = None, processingFrame = False,
       loadingPromise = None, skippedFrames = 0, maxSkippedFrames = 1, bufferCanvas = False,
       isLowPowerMode = False, lastProcessingTime = 0 \<rparr>"

text \<open>
  \<^verbatim>\<open>init()\<close> up to its first suspension. \<open>created\<close> counts the
  \<^verbatim>\<open>SelfieSegmentation\<close> instances made so far. With a loading promise stored, that
  promise is returned and nothing else happens. Otherwise the buffer canvas is made, the
  promise executor runs at once and creates an instance, and the promise is stored.
  The result is the promise returned, the adapter and the instance count.
\<close>

definition mediaPipeInit :: "mediaPipe \<Rightarrow> nat \<Rightarrow> nat \<times> mediaPipe \<times> nat" where
  "mediaPipeInit m created =
     (case loadingPromise m of
        Some p \<Rightarrow> (p, m, created)
      | None \<Rightarrow>
          (created, m \<lparr> bufferCanvas := True, loadingPromise := Some created \<rparr>, created + 1))"

text \<open>
  The end of the promise executor once the preload has finished: the instance \<open>h\<close>
  becomes the segmenter and the promise resolves to \<^verbatim>\<open>true\<close>; or, when setting the
  instance up threw, the promise is rejected.
\<close>

definition mediaPipeLoaded :: "nat \<Rightarrow> mediaPipe \<Rightarrow> mediaPipe" where
  "mediaPipeLoaded h m = m \<lparr> segmenter := Some h, isInitialized := True \<rparr>"

definition mediaPipeLoadFailed :: "mediaPipe \<Rightarrow> mediaPipe" where
  "mediaPipeLoadFailed m = m \<lparr> isInitialized := False \<rparr>"

text \<open>The callback registered with \<^verbatim>\<open>selfieSegmentation.onResults\<close>.\<close>

definition onResults :: "results \<Rightarrow> mediaPipe \<Rightarrow> mediaPipe" where
  "onResults r m = m \<lparr> lastResults := Some r, processingFrame := False \<rparr>"

definition drawResultsWithBackground :: "results \<Rightarrow> string \<Rightarrow> image option \<Rightarrow> picture" where
  "drawResultsWithBackground r backgroundType backgroundImage =
     (if backgroundType = ''blur'' then BlurredBackground r
      else if backgroundType = ''beach'' \<or> backgroundType = ''office''
              \<or> backgroundType = ''custom''
      then (case backgroundImage of
              Some img \<Rightarrow> if complete img then ImageBackground r (imageSrc img) else RawVideo
            | None \<Rightarrow> RawVideo)
      else RawVideo)"

text \<open>
  \<^verbatim>\<open>if (this.lastResults) { this._drawResultsWithBackground(...) } else { ctx.drawImage(videoElement, ...) }\<close>,
  the reuse of the last completed results.
\<close>

definition drawLastResults :: "mediaPipe \<Rightarrow> string \<Rightarrow> image option \<Rightarrow> picture" where
  "drawLastResults m backgroundType backgroundImage =
     (case lastResults m of
        Some r \<Rightarrow> drawResultsWithBackground r backgroundType backgroundImage
      | None \<Rightarrow> RawVideo)"

text \<open>
  The clock readings of one \<^verbatim>\<open>processFrame\<close> call: at entry, when the segmentation time
  is taken, and when the result object is built.
\<close>

record clock =
  startTime :: real
  segmentedAt :: real
  returnedAt :: real

text \<open>
  \<^verbatim>\<open>processFrame\<close> up to \<^verbatim>\<open>await this.segmenter.send(...)\<close>. The call either returns
  on one of its early paths, with the picture it drew and its result, or it has set the
  in-flight flag and waits for the segmenter (\<open>None\<close>).
\<close>

definition processFrameStart ::
  "clock \<Rightarrow> string \<Rightarrow> image option \<Rightarrow> mediaPipe \<Rightarrow> mediaPipe \<times> (picture \<times> frameResult) option" where
  "processFrameStart c backgroundType backgroundImage m =
     (let early = \<lparr> segmentationTime = 0, totalTime = returnedAt c - startTime c \<rparr> in
      if \<not> isInitialized m \<or> segmenter m = None
      then (m, Some (RawVideo, early))
      else if skippedFrames m < maxSkippedFrames m
      then (m \<lparr> skippedFrames := skippedFrames m + 1 \<rparr>,
            Some (drawLastResults m backgroundType backgroundImage, early))
      else if processingFrame m
      then (m \<lparr> skippedFrames := 0 \<rparr>,
            Some (drawLastResults m backgroundType backgroundImage, early))
      else (m \<lparr> skippedFrames := 0, processingFrame := True \<rparr>, None))"

text \<open>
  The rest of the \<^verbatim>\<open>try\<close> block, run when \<^verbatim>\<open>send\<close> and the 5 ms pause have resolved,
  and the \<^verbatim>\<open>catch\<close> block, run when \<^verbatim>\<open>send\<close> rejected.
\<close>

definition processFrameResume ::
  "clock \<Rightarrow> string \<Rightarrow> image option \<Rightarrow> mediaPipe \<Rightarrow> mediaPipe \<times> picture \<times> frameResult" where
  "processFrameResume c backgroundType backgroundImage m =
     (case lastResults m of
        None \<Rightarrow>
          (m \<lparr> processingFrame := False \<rparr>, RawVideo,
           \<lparr> segmentationTime = 0, totalTime = returnedAt c - startTime c \<rparr>)
      | Some r \<Rightarrow>
          (m \<lparr> lastProcessingTime := returnedAt c - startTime c, processingFrame := False \<rparr>,
           drawResultsWithBackground r backgroundType backgroundImage,
           \<lparr> segmentationTime = segmentedAt c - startTime c,
             totalTime = returnedAt c - startTime c \<rparr>))"

definition processFrameCatch :: "clock \<Rightarrow> mediaPipe \<Rightarrow> mediaPipe \<times> picture \<times> frameResult" where
  "processFrameCatch c m =
     (m \<lparr> processingFrame := False \<rparr>, RawVideo,
      \<lparr> segmentationTime = 0, totalTime = returnedAt c - startTime c \<rparr>)"

text \<open>
  One whole call that settles: the start, then, on the inference path, the results the
  segmenter delivers through \<^verbatim>\<open>onResults\<close> while \<^verbatim>\<open>send\<close> is pending, then the
  resumption or the \<^verbatim>\<open>catch\<close> block.
\<close>

datatype sendOutcome = SendResolves | SendRejects

definition processFrame ::
  "clock \<Rightarrow> string \<Rightarrow> image option \<Rightarrow> results list \<Rightarrow> sendOutcome \<Rightarrow> mediaPipe
     \<Rightarrow> mediaPipe \<times> picture \<times> frameResult" where
  "processFrame c backgroundType backgroundImage delivered outcome m =
     (case processFrameStart c backgroundType backgroundImage m of
        (m1, Some (pic, res)) \<Rightarrow> (m1, pic, res)
      | (m1, None) \<Rightarrow>
          (let m2 = fold onResults delivered m1 in
           case outcome of
             SendResolves \<Rightarrow> processFrameResume c backgroundType backgroundImage m2
           | SendRejects \<Rightarrow> processFrameCatch c m2))"

subsection \<open>BodyPixModel\<close>

text \<open>
  The fields of \<^verbatim>\<open>BodyPixModel\<close>, and its \<^verbatim>\<open>init()\<close> up to
  \<^verbatim>\<open>await bodyPix.load(...)\<close>: every call starts a load, which creates a model. \<open>created\<close>
  counts the models created so far; the result is the model being loaded, the adapter and
  the count. When the load has finished the model is stored and the call returns
  \<^verbatim>\<open>true\<close>.
\<close>

record bodyPix =
  bodyPixModel :: "nat option"
  bodyPixIsInitialized :: bool

definition newBodyPix :: bodyPix where
  "newBodyPix = \<lparr> bodyPixModel = None, bodyPixIsInitialized = False \<rparr>"

definition bodyPixInit :: "bodyPix \<Rightarrow> nat \<Rightarrow> nat \<times> bodyPix \<times> nat" where
  "bodyPixInit b created = (created, b, created + 1)"

definition bodyPixLoaded :: "nat \<Rightarrow> bodyPix \<Rightarrow> bodyPix" where
  "bodyPixLoaded h b = b \<lparr> bodyPixModel := Some h, bodyPixIsInitialized := True \<rparr>"

text \<open>
  An adapter whose in-flight flag is set: it is initialised, has used up its skipped
  frames, and a segmentation request is pending.
\<close>

definition busyMediaPipe :: mediaPipe where
  "busyMediaPipe =
     \<lparr> segmenter = Some 0, isInitialized = True, lastResults = Some 7, processingFrame = True,
       loadingPromise = Some 0, skippedFrames = 1, maxSkippedFrames = 1, bufferCanvas = True,
       isLowPowerMode = False, lastProcessingTime = 0 \<rparr>"

definition exampleClock :: clock where
  "exampleClock = \<lparr> startTime = 1000, segmentedAt = 1012, returnedAt = 1015 \<rparr>"


section \<open>Virtual background service\<close>

text \<open>
  Media tracks and streams as far as the service reads them: a track's kind and the
  frame rate in its settings, a stream's video and audio tracks.
\<close>

record track =
  trackId :: nat
  trackKind :: string
  trackFrameRate :: "real option"

record mediaStream =
  videoTracks :: "track list"
  audioTracks :: "track list"

text \<open>
  The service holds its adapter through the interface of \<^verbatim>\<open>BaseBackgroundModel\<close>; an
  adapter instance is known by the number it got when it was created and by its class.
  What the service does to the outside (the adapter, the page, the browser) is recorded
  in order as a list of effects; \<open>Drawn\<close> is a picture put on the output canvas, by the
  adapter during \<^verbatim>\<open>processFrame\<close> or by the service itself.
\<close>

record adapterRef =
  adapterId :: nat
  adapterKind :: adapterClass

datatype effect =
    RequestAnimationFrame nat
  | CancelAnimationFrame nat
  | UpdateDebugInfo string
  | ShowAlert string string
  | Drawn picture
  | RequestFrame
  | ProcessFrame nat real string "image option"
  | InitModel nat
  | DisposeModel nat

text \<open>
  The object \<^verbatim>\<open>virtualBackground\<close>. Its fields \<^verbatim>\<open>type\<close>, \<^verbatim>\<open>image\<close> and
  \<^verbatim>\<open>context\<close> are \<open>backgroundType\<close>, \<open>customImage\<close> and \<open>canvasContext\<close> here;
  \<^verbatim>\<open>backgroundImages.beach\<close> and \<^verbatim>\<open>backgroundImages.office\<close> are \<open>beach\<close> and
  \<open>office\<close>. The comparison table \<^verbatim>\<open>modelMetrics\<close> is left out.
\<close>

record virtualBackground =
  enabled :: bool
  backgroundType :: string
  model :: string
  customImage :: "image option"
  activeModel :: "adapterRef option"
  stream :: "mediaStream option"
  canvasContext :: bool
  animationFrame :: "nat option"
  targetFps :: real
  lastProcessedVideoTime :: real
  videoTrack :: "track option"
  canvasStream :: "mediaStream option"
  beach :: "image option"
  office :: "image option"

text \<open>
  The service together with what it shares with the page and the browser:
  \<^verbatim>\<open>window.modelFactory\<close>, the local video element and its \<^verbatim>\<open>srcObject\<close>, the tracks of
  the senders of \<^verbatim>\<open>window.peerConnection\<close> (\<open>None\<close> without a peer connection), the
  visibility of the controls, the animation-frame callbacks the browser holds and has
  not run yet, the number of \<^verbatim>\<open>processFrame\<close> calls that have not settled, and the
  effects so far.
\<close>

record system =
  vb :: virtualBackground
  metrics :: metrics
  metricUpdateInterval :: bool
  modelFactory :: "factory option"
  localVideo :: bool
  srcObject :: "mediaStream option"
  peerSenders :: "track option list option"
  buttonActive :: bool
  modelSelectorShown :: bool
  performanceMetricsShown :: bool
  canvasShown :: bool
  videoOpaque :: bool
  currentModelText :: string
  pendingFrames :: "nat list"
  nextHandle :: nat
  inFlight :: nat
  created :: nat
  effects :: "effect list"

definition addEffect :: "effect \<Rightarrow> system \<Rightarrow> system" where
  "addEffect e s = s \<lparr> effects := effects s @ [e] \<rparr>"

definition updateDebugInfo :: "string \<Rightarrow> system \<Rightarrow> system" where
  "updateDebugInfo msg s = addEffect (UpdateDebugInfo msg) s"

definition showAlert :: "string \<Rightarrow> string \<Rightarrow> system \<Rightarrow> system" where
  "showAlert msg kind s = addEffect (ShowAlert msg kind) s"

text \<open>
  \<^verbatim>\<open>virtualBackground.animationFrame = requestAnimationFrame(processVideoFrames)\<close>: the
  browser hands out the next handle and keeps the callback until it runs or is cancelled.
\<close>

definition scheduleNextFrame :: "system \<Rightarrow> system" where
  "scheduleNextFrame s =
     addEffect (RequestAnimationFrame (nextHandle s))
       (s \<lparr> vb := (vb s) \<lparr> animationFrame := Some (nextHandle s) \<rparr>,
            pendingFrames := pendingFrames s @ [nextHandle s],
            nextHandle := nextHandle s + 1 \<rparr>)"

text \<open>
  \<^verbatim>\<open>if (virtualBackground.animationFrame) { cancelAnimationFrame(...); virtualBackground.animationFrame = null; }\<close>.
  A handle is a positive number, hence truthy.
\<close>

definition cancelScheduledFrame :: "system \<Rightarrow> system" where
  "cancelScheduledFrame s =
     (case animationFrame (vb s) of
        Some h \<Rightarrow>
          addEffect (CancelAnimationFrame h)
            (s \<lparr> vb := (vb s) \<lparr> animationFrame := None \<rparr>,
                 pendingFrames := removeAll h (pendingFrames s) \<rparr>)
      | None \<Rightarrow> s)"

text \<open>
  \<^verbatim>\<open>if (virtualBackground.videoTrack && virtualBackground.videoTrack.requestFrame) { ...requestFrame(); }\<close>
  and the fallback draw of the source video frame.
\<close>

definition requestFrame :: "system \<Rightarrow> system" where
  "requestFrame s = (if videoTrack (vb s) \<noteq> None then addEffect RequestFrame s else s)"

definition drawVideo :: "system \<Rightarrow> system" where
  "drawVideo s = addEffect (Drawn RawVideo) s"

text \<open>
  The choice of the background image at the start of \<^verbatim>\<open>applyVirtualBackground\<close>, with
  the reload of the office image when it is missing or not complete.
\<close>

definition imageReady :: "image option \<Rightarrow> bool" where
  "imageReady i = (case i of Some img \<Rightarrow> complete img | None \<Rightarrow> False)"

definition selectBackgroundImage :: "system \<Rightarrow> image option \<times> system" where
  "selectBackgroundImage s =
     (let v = vb s;
          backgroundImage =
            (if backgroundType v = ''custom'' \<and> customImage v \<noteq> None then customImage v
             else if backgroundType v = ''beach'' then beach v
             else if backgroundType v = ''office'' then office v
             else None)
      in if backgroundType v = ''office'' \<and> \<not> imageReady backgroundImage
         then (let s1 = updateDebugInfo ''Office background image issue'' s in
               if \<not> imageReady (office v)
               then (if imageReady (beach v) then beach v else backgroundImage,
                     (updateDebugInfo ''Reloading office background image'' s1)
                       \<lparr> vb := v \<lparr> office :=
                               Some \<lparr> imageSrc = ''assets/office.png'', complete = False \<rparr> \<rparr> \<rparr>)
               else (backgroundImage, s1))
         else (backgroundImage, s))"

text \<open>
  \<^verbatim>\<open>applyVirtualBackground()\<close> as called from \<^verbatim>\<open>processVideoFrames\<close>, at video time
  \<open>t\<close>. Disabled or without an adapter it returns at once, and the \<^verbatim>\<open>then\<close> callback of
  \<^verbatim>\<open>processVideoFrames\<close> requests the next animation frame. Otherwise it calls the
  adapter's \<^verbatim>\<open>processFrame\<close> and waits for it to settle.
\<close>

definition applyVirtualBackground :: "real \<Rightarrow> system \<Rightarrow> system" where
  "applyVirtualBackground t s =
     (case activeModel (vb s) of
        None \<Rightarrow> scheduleNextFrame s
      | Some a \<Rightarrow>
          if \<not> enabled (vb s) then scheduleNextFrame s
          else (case selectBackgroundImage s of
                  (backgroundImage, s1) \<Rightarrow>
                    addEffect (ProcessFrame (adapterId a) t (backgroundType (vb s1)) backgroundImage)
                      (s1 \<lparr> inFlight := inFlight s1 + 1 \<rparr>)))"

text \<open>
  How a \<^verbatim>\<open>processFrame\<close> call settles: fulfilled with a result, the adapter having drawn
  a picture, or rejected with an error message.
\<close>

datatype settlement = Fulfilled picture frameResult | Rejected string

text \<open>
  The rest of \<^verbatim>\<open>applyVirtualBackground\<close> once \<^verbatim>\<open>processFrame\<close> has settled, followed by
  the \<^verbatim>\<open>then\<close> or \<^verbatim>\<open>catch\<close> callback of \<^verbatim>\<open>processVideoFrames\<close>. \<open>now\<close> is the clock
  reading inside \<^verbatim>\<open>updatePerformanceMetrics\<close>. Without a canvas context the fallback draw
  throws inside the \<^verbatim>\<open>catch\<close> block, and the \<^verbatim>\<open>catch\<close> callback of
  \<^verbatim>\<open>processVideoFrames\<close> requests the next frame.
\<close>

definition processFrameSettled :: "settlement \<Rightarrow> real \<Rightarrow> system \<Rightarrow> system" where
  "processFrameSettled outcome now s =
     (case outcome of
        Fulfilled pic result \<Rightarrow>
          scheduleNextFrame
            (requestFrame
               ((addEffect (Drawn pic) s)
                  \<lparr> metrics := updatePerformanceMetrics (segmentationTime result)
                                 (totalTime result) now (metrics s) \<rparr>))
      | Rejected message \<Rightarrow>
          (let s1 = updateDebugInfo (''Error processing frame: '' @ message) s in
           if canvasContext (vb s1)
           then scheduleNextFrame (requestFrame (drawVideo s1))
           else scheduleNextFrame (updateDebugInfo ''Error in frame processing'' s1)))"

text \<open>
  \<^verbatim>\<open>processVideoFrames()\<close> with the video's \<^verbatim>\<open>currentTime\<close> as argument. The
  resizing of the canvas to the video's dimensions is left out, as for the adapters.
\<close>

definition processVideoFrames :: "real \<Rightarrow> system \<Rightarrow> system" where
  "processVideoFrames currentVideoTime s =
     (if \<not> enabled (vb s) \<or> \<not> localVideo s then cancelScheduledFrame s
      else if lastProcessedVideoTime (vb s) = currentVideoTime then scheduleNextFrame s
      else applyVirtualBackground currentVideoTime
             (s \<lparr> vb := (vb s) \<lparr> lastProcessedVideoTime := currentVideoTime \<rparr> \<rparr>))"

text \<open>
  What happens to a running loop: the browser runs the oldest animation-frame callback
  it holds, at some video time, or a pending \<^verbatim>\<open>processFrame\<close> call settles. An event
  that has nothing to act on (no callback held, no call pending) changes nothing.
\<close>

datatype event = AnimationFrame real | ProcessFrameSettles settlement real

definition step :: "event \<Rightarrow> system \<Rightarrow> system" where
  "step ev s =
     (case ev of
        AnimationFrame t \<Rightarrow>
          (case pendingFrames s of
             [] \<Rightarrow> s
           | h # hs \<Rightarrow> processVideoFrames t (s \<lparr> pendingFrames := hs \<rparr>))
      | ProcessFrameSettles outcome now \<Rightarrow>
          if inFlight s = 0 then s
          else processFrameSettled outcome now (s \<lparr> inFlight := inFlight s - 1 \<rparr>))"

fun run :: "event list \<Rightarrow> system \<Rightarrow> system" where
  "run [] s = s"
| "run (ev # evs) s = run evs (step ev s)"

text \<open>
  The video times of the animation frames in a run of events, the video times at which
  \<^verbatim>\<open>processFrame\<close> was called, and the alerts shown, read off the effects.
\<close>

fun frameTimesOf :: "event list \<Rightarrow> real list" where
  "frameTimesOf [] = []"
| "frameTimesOf (AnimationFrame t # evs) = t # frameTimesOf evs"
| "frameTimesOf (ProcessFrameSettles outcome now # evs) = frameTimesOf evs"

fun processFrameTimes :: "effect list \<Rightarrow> real list" where
  "processFrameTimes [] = []"
| "processFrameTimes (ProcessFrame a t bt bi # es) = t # processFrameTimes es"
| "processFrameTimes (e # es) = processFrameTimes es"

fun alertsOf :: "effect list \<Rightarrow> (string \<times> string) list" where
  "alertsOf [] = []"
| "alertsOf (ShowAlert msg kind # es) = (msg, kind) # alertsOf es"
| "alertsOf (e # es) = alertsOf es"


text \<open>
  The loop calls \<^verbatim>\<open>processFrame\<close> at strictly increasing video times, none later than
  the last processed one.
\<close>

definition attemptsBelow :: "system \<Rightarrow> bool" where
  "attemptsBelow s =
     (sorted_wrt (<) (processFrameTimes (effects s))
      \<and> list_all (\<lambda>x. x \<le> lastProcessedVideoTime (vb s)) (processFrameTimes (effects s)))"

text \<open>
  A call in progress: a camera at 30 frames per second with a microphone, the canvas
  track sent to the peer, the effect enabled with a MediaPipe adapter and blur, and
  \<^verbatim>\<open>processVideoFrames\<close> about to be called for the first time.
\<close>

definition cameraTrack :: track where
  "cameraTrack = \<lparr> trackId = 1, trackKind = ''video'', trackFrameRate = Some 30 \<rparr>"

definition microphoneTrack :: track where
  "microphoneTrack = \<lparr> trackId = 2, trackKind = ''audio'', trackFrameRate = None \<rparr>"

definition canvasTrack :: track where
  "canvasTrack = \<lparr> trackId = 3, trackKind = ''video'', trackFrameRate = None \<rparr>"

definition cameraStream :: mediaStream where
  "cameraStream = \<lparr> videoTracks = [cameraTrack], audioTracks = [microphoneTrack] \<rparr>"

definition enabledSystem :: system where
  "enabledSystem =
     \<lparr> vb = \<lparr> enabled = True, backgroundType = ''blur'', model = ''mediaPipe'',
              customImage = None,
              activeModel = Some \<lparr> adapterId = 0, adapterKind = MediaPipeModel \<rparr>,
              stream = Some cameraStream, canvasContext = True, animationFrame = None,
              targetFps = 30, lastProcessedVideoTime = - 1, videoTrack = Some canvasTrack,
              canvasStream =
                Some \<lparr> videoTracks = [canvasTrack], audioTracks = [microphoneTrack] \<rparr>,
              beach = None, office = None \<rparr>,
       metrics = resetMetrics 5 initialMetrics, metricUpdateInterval = True,
       modelFactory = Some newFactory, localVideo = True, srcObject = Some cameraStream,
       peerSenders = Some [Some microphoneTrack, Some canvasTrack],
       buttonActive = True, modelSelectorShown = True, performanceMetricsShown = True,
       canvasShown = True, videoOpaque = False, currentModelText = ''mediaPipe'',
       pendingFrames = [], nextHandle = 1, inFlight = 0, created = 1, effects = [] \<rparr>"

text \<open>
  The loop after its first call at video time 0, with the adapter's call pending; and
  after that call has been fulfilled, with the next animation frame requested.
\<close>

definition firstFramePending :: system where
  "firstFramePending = processVideoFrames 0 enabledSystem"

definition firstFrameDone :: system where
  "firstFrameDone =
     step (ProcessFrameSettles
             (Fulfilled (BlurredBackground 7) \<lparr> segmentationTime = 12, totalTime = 15 \<rparr>) 40)
       firstFramePending"


section \<open>Enabling and disabling the effect\<close>

text \<open>
  How the adapter's \<^verbatim>\<open>init()\<close> settles, by the contract of \<^verbatim>\<open>BaseBackgroundModel\<close>: it
  resolves to \<^verbatim>\<open>true\<close> or to \<^verbatim>\<open>false\<close>, or it throws.
\<close>

datatype initOutcome = InitTrue | InitFalse | InitThrows string

text \<open>The \<^verbatim>\<open>catch\<close> block of \<^verbatim>\<open>loadSelectedModel\<close>.\<close>

definition loadFailed :: "string \<Rightarrow> system \<Rightarrow> bool \<times> system" where
  "loadFailed message s =
     (False,
      showAlert (''Could not initialize '' @ model (vb s) @ '' model.'') ''error''
        (updateDebugInfo (''Error initializing model: '' @ message) s))"

text \<open>
  \<^verbatim>\<open>loadSelectedModel(modelType)\<close>, run to its end. \<open>importOk\<close> and \<open>initOutcome\<close> say how
  the imports inside \<^verbatim>\<open>createModel\<close> and the adapter's \<^verbatim>\<open>init()\<close> turn out. The
  adapter's \<^verbatim>\<open>dispose()\<close> is taken not to throw.
\<close>

definition loadSelectedModel ::
  "string option \<Rightarrow> (adapterClass \<Rightarrow> bool) \<Rightarrow> initOutcome \<Rightarrow> system \<Rightarrow> bool \<times> system" where
  "loadSelectedModel modelType importOk initOutcome s =
     (let s1 = (case modelType of
                  Some t \<Rightarrow> if t \<noteq> [] then s \<lparr> vb := (vb s) \<lparr> model := t \<rparr> \<rparr> else s
                | None \<Rightarrow> s);
          s2 = (case activeModel (vb s1) of
                  Some a \<Rightarrow> addEffect (DisposeModel (adapterId a)) s1
                | None \<Rightarrow> s1)
      in case modelFactory s2 of
           None \<Rightarrow> loadFailed ''Model factory not initialized'' s2
         | Some f \<Rightarrow>
             (case createModel (model (vb s2)) emptyConfig importOk f of
                (None, f1) \<Rightarrow>
                  loadFailed (''Failed to create model of type: '' @ model (vb s2))
                    (s2 \<lparr> modelFactory := Some f1, vb := (vb s2) \<lparr> activeModel := None \<rparr> \<rparr>)
              | (Some cls, f1) \<Rightarrow>
                  (let a = \<lparr> adapterId = created s2, adapterKind = cls \<rparr>;
                       s3 = addEffect (InitModel (adapterId a))
                              (s2 \<lparr> modelFactory := Some f1, created := created s2 + 1,
                                    vb := (vb s2) \<lparr> activeModel := Some a \<rparr>,
                                    currentModelText := model (vb s2) \<rparr>)
                   in case initOutcome of
                        InitTrue \<Rightarrow>
                          (True,
                           showAlert (model (vb s3) @ '' model initialized successfully'')
                             ''success'' s3)
                      | InitFalse \<Rightarrow> (False, s3)
                      | InitThrows message \<Rightarrow> loadFailed message s3)))"

text \<open>
  What \<^verbatim>\<open>toggle\<close> takes from outside: the clock reading of \<^verbatim>\<open>resetMetrics\<close>, the
  outcomes for \<^verbatim>\<open>loadSelectedModel\<close>, the video track of
  \<^verbatim>\<open>localCanvas.captureStream(0)\<close>, and the video time at the first call of
  \<^verbatim>\<open>processVideoFrames\<close>.
\<close>

record toggleEnv =
  envNow :: real
  envImportOk :: "adapterClass \<Rightarrow> bool"
  envInitOutcome :: initOutcome
  envCanvasTrack :: track
  envVideoTime :: real

datatype completion = Completed | Threw

text \<open>
  \<^verbatim>\<open>settings && settings.frameRate ? Math.round(settings.frameRate) : 30\<close> for the first
  video track of the source stream.
\<close>

definition mathRound :: "real \<Rightarrow> real" where
  "mathRound x = of_int \<lfloor>x + 1 / 2\<rfloor>"

definition sourceFrameRate :: "mediaStream \<Rightarrow> real" where
  "sourceFrameRate src =
     (case videoTracks src of
        [] \<Rightarrow> 30
      | t # ts \<Rightarrow>
          (case trackFrameRate t of
             Some r \<Rightarrow> if r \<noteq> 0 then mathRound r else 30
           | None \<Rightarrow> 30))"

text \<open>
  \<^verbatim>\<open>senders.find(sender => sender.track && sender.track.kind === 'video')\<close> followed by
  \<^verbatim>\<open>replaceTrack\<close> on the sender found, when there is a peer connection.
\<close>

fun replaceVideoSender :: "track \<Rightarrow> track option list \<Rightarrow> track option list" where
  "replaceVideoSender t [] = []"
| "replaceVideoSender t (None # senders) = None # replaceVideoSender t senders"
| "replaceVideoSender t (Some tr # senders) =
     (if trackKind tr = ''video'' then Some t # senders
      else Some tr # replaceVideoSender t senders)"

definition isVideoSender :: "track option \<Rightarrow> bool" where
  "isVideoSender sender =
     (case sender of Some tr \<Rightarrow> trackKind tr = ''video'' | None \<Rightarrow> False)"

definition replaceOutgoingVideo :: "track \<Rightarrow> system \<Rightarrow> system" where
  "replaceOutgoingVideo t s =
     (case peerSenders s of
        Some senders \<Rightarrow> s \<lparr> peerSenders := Some (replaceVideoSender t senders) \<rparr>
      | None \<Rightarrow> s)"

text \<open>
  The branch of \<^verbatim>\<open>toggle\<close> that enables the effect, run to its end, in three parts:
  the statements before \<^verbatim>\<open>await loadSelectedModel()\<close>, the block taken when the load
  failed, and the statements after a successful load. Reading the tracks of a missing
  \<^verbatim>\<open>srcObject\<close> throws.
\<close>

definition beginEnable :: "toggleEnv \<Rightarrow> system \<Rightarrow> system" where
  "beginEnable env s =
     s \<lparr> buttonActive := True, modelSelectorShown := True, performanceMetricsShown := True,
         metrics := resetMetrics (envNow env) (metrics s),
         vb := (vb s) \<lparr> lastProcessedVideoTime := - 1 \<rparr>,
         metricUpdateInterval := True \<rparr>"

definition abortEnable :: "system \<Rightarrow> system" where
  "abortEnable s =
     s \<lparr> vb := (vb s) \<lparr> enabled := False \<rparr>, buttonActive := False,
         modelSelectorShown := False, performanceMetricsShown := False,
         canvasShown := False \<rparr>"

definition completeEnable :: "toggleEnv \<Rightarrow> system \<Rightarrow> completion \<times> system" where
  "completeEnable env s =
     (let s1 = s \<lparr> vb := (vb s)
                 \<lparr> canvasStream :=
                     Some \<lparr> videoTracks = [envCanvasTrack env], audioTracks = [] \<rparr>,
                   videoTrack := Some (envCanvasTrack env) \<rparr> \<rparr>
      in case srcObject s1 of
           None \<Rightarrow> (Threw, s1)
         | Some src \<Rightarrow>
             (let s2 = updateDebugInfo ''Source video FPS capability''
                         (s1 \<lparr> vb := (vb s1) \<lparr> targetFps := sourceFrameRate src \<rparr> \<rparr>);
                  s3 = s2 \<lparr> vb := (vb s2)
                          \<lparr> canvasStream :=
                              Some \<lparr> videoTracks = [envCanvasTrack env],
                                     audioTracks = audioTracks src \<rparr>,
                            stream := Some src \<rparr>,
                        canvasShown := True, videoOpaque := False \<rparr>;
                  s4 = replaceOutgoingVideo (envCanvasTrack env) s3;
                  s5 = processVideoFrames (envVideoTime env) s4
              in (Completed,
                  updateDebugInfo (''Virtual background enabled: '' @ model (vb s5)) s5)))"

definition toggleOn :: "toggleEnv \<Rightarrow> system \<Rightarrow> completion \<times> system" where
  "toggleOn env s =
     (case loadSelectedModel None (envImportOk env) (envInitOutcome env) (beginEnable env s) of
        (False, s1) \<Rightarrow> (Completed, abortEnable s1)
      | (True, s1) \<Rightarrow> completeEnable env s1)"

text \<open>The branch of \<^verbatim>\<open>toggle\<close> that disables the effect.\<close>

definition toggleOff :: "system \<Rightarrow> system" where
  "toggleOff s =
     (let s1 = s \<lparr> buttonActive := False, modelSelectorShown := False,
                   performanceMetricsShown := False, metricUpdateInterval := False,
                   canvasShown := False, videoOpaque := True \<rparr>;
          s2 = (case stream (vb s1) of
                  Some st \<Rightarrow>
                    (case videoTracks st of
                       originalVideoTrack # rest \<Rightarrow> replaceOutgoingVideo originalVideoTrack s1
                     | [] \<Rightarrow> s1) \<lparr> srcObject := Some st \<rparr>
                | None \<Rightarrow> s1)
      in updateDebugInfo ''Virtual background disabled'' (cancelScheduledFrame s2))"

definition toggle :: "toggleEnv \<Rightarrow> system \<Rightarrow> completion \<times> system" where
  "toggle env s =
     (let s0 = s \<lparr> vb := (vb s) \<lparr> enabled := \<not> enabled (vb s) \<rparr> \<rparr>
      in if enabled (vb s0) then toggleOn env s0 else (Completed, toggleOff s0))"

text \<open>
  When the load started by \<^verbatim>\<open>toggle\<close> fails: there is no factory, or no adapter could
  be created, or the adapter's \<^verbatim>\<open>init()\<close> did not resolve to \<^verbatim>\<open>true\<close>. The last case
  splits: \<^verbatim>\<open>init()\<close> threw, or it resolved to \<^verbatim>\<open>false\<close>.
\<close>

definition loadFails :: "toggleEnv \<Rightarrow> system \<Rightarrow> bool" where
  "loadFails env s =
     (case modelFactory s of
        None \<Rightarrow> True
      | Some f \<Rightarrow>
          (case fst (createModel (model (vb s)) emptyConfig (envImportOk env) f) of
             None \<Rightarrow> True
           | Some cls \<Rightarrow> envInitOutcome env \<noteq> InitTrue))"

definition initResolvesFalse :: "toggleEnv \<Rightarrow> system \<Rightarrow> bool" where
  "initResolvesFalse env s =
     (case modelFactory s of
        None \<Rightarrow> False
      | Some f \<Rightarrow>
          (case fst (createModel (model (vb s)) emptyConfig (envImportOk env) f) of
             None \<Rightarrow> False
           | Some cls \<Rightarrow> envInitOutcome env = InitFalse))"

text \<open>
  The page with the effect disabled after BodyPix has been selected: the factory holds
  the preference, the service holds the BodyPix adapter loaded at the selection, and the
  camera is sent to the peer. And an environment in which the \<^verbatim>\<open>init()\<close> of the next
  adapter resolves to \<^verbatim>\<open>false\<close>.
\<close>

definition bodyPixPreferred :: factory where
  "bodyPixPreferred =
     newFactory \<lparr> userPreferredModel := Some ''bodypix'',
                    userPreferredConfig := Some emptyConfig \<rparr>"

definition idleSystem :: system where
  "idleSystem =
     \<lparr> vb = \<lparr> enabled = False, backgroundType = ''none'', model = ''bodypix'',
              customImage = None,
              activeModel = Some \<lparr> adapterId = 0, adapterKind = BodyPixModel \<rparr>,
              stream = None, canvasContext = True,
              animationFrame = None, targetFps = 30, lastProcessedVideoTime = - 1,
              videoTrack = None, canvasStream = None, beach = None, office = None \<rparr>,
       metrics = initialMetrics, metricUpdateInterval = False,
       modelFactory = Some bodyPixPreferred,
       localVideo = True, srcObject = Some cameraStream,
       peerSenders = Some [Some microphoneTrack, Some cameraTrack],
       buttonActive = False, modelSelectorShown = False, performanceMetricsShown = False,
       canvasShown = False, videoOpaque = True, currentModelText = ''bodypix'',
       pendingFrames = [], nextHandle = 1, inFlight = 0, created = 1, effects = [] \<rparr>"

definition initFalseEnv :: toggleEnv where
  "initFalseEnv =
     \<lparr> envNow = 5, envImportOk = (\<lambda>cls. True), envInitOutcome = InitFalse,
       envCanvasTrack = canvasTrack, envVideoTime = 0 \<rparr>"

section \<open>Selecting a model from the model lab\<close>

text \<open>
  \<^verbatim>\<open>resetAndSaveMetrics(oldModel)\<close>. The comparison table is left out; what remains is
  the reset of the metrics and the comparison alert, shown when the frame rate read back
  from the page (\<open>displayedFps\<close>) is positive. The alert's text is cut down to its title
  and the name of the old model.
\<close>

definition resetAndSaveMetrics :: "string \<Rightarrow> real \<Rightarrow> real \<Rightarrow> system \<Rightarrow> system" where
  "resetAndSaveMetrics oldModel now displayedFps s =
     (if oldModel \<noteq> [] \<and> model (vb s) \<noteq> oldModel
      then (let s1 = s \<lparr> metrics := resetMetrics now (metrics s) \<rparr>
            in if displayedFps > 0
               then showAlert (''Model Comparison: '' @ oldModel) ''info'' s1
               else s1)
      else s)"

text \<open>
  What \<^verbatim>\<open>reloadBackgroundModel\<close> takes from outside: the clock reading and the frame
  rate on the page for \<^verbatim>\<open>resetAndSaveMetrics\<close>, the outcomes of the imports and of the
  \<^verbatim>\<open>init()\<close> of the adapter it creates, and the environment of the calls of
  \<^verbatim>\<open>toggle\<close> it makes.
\<close>

record reloadEnv =
  reloadNow :: real
  reloadDisplayedFps :: real
  reloadImportOk :: "adapterClass \<Rightarrow> bool"
  reloadInitOutcome :: initOutcome
  reloadToggleEnv :: toggleEnv

text \<open>
  The \<^verbatim>\<open>catch\<close> block of \<^verbatim>\<open>reloadBackgroundModel\<close>. The result is the value returned,
  or \<open>None\<close> when the call of \<^verbatim>\<open>toggle\<close> in the block threw.
\<close>

definition reloadCatch ::
  "bool \<Rightarrow> string \<Rightarrow> string \<Rightarrow> reloadEnv \<Rightarrow> system \<Rightarrow> bool option \<times> system" where
  "reloadCatch wasEnabled currentModelType message env s =
     (let s1 = showAlert (''Could not reload model: '' @ message) ''error''
                 (updateDebugInfo (''Error reloading model: '' @ message) s);
          s2 = s1 \<lparr> vb := (vb s1) \<lparr> model := currentModelType \<rparr> \<rparr>
      in if wasEnabled
         then (case toggle (reloadToggleEnv env) s2 of
                 (Completed, s3) \<Rightarrow> (Some False, s3)
               | (Threw, s3) \<Rightarrow> (None, s3))
         else (Some False, s2))"

text \<open>
  The \<^verbatim>\<open>try\<close> block of \<^verbatim>\<open>reloadBackgroundModel\<close> from the call of
  \<^verbatim>\<open>createModel()\<close> to the alert after \<^verbatim>\<open>init()\<close>, for the factory \<open>f\<close> that
  \<^verbatim>\<open>window.modelFactory\<close> refers to. The first component is the message of the error
  thrown, if any. \<^verbatim>\<open>createModel()\<close> is called with its defaults, and the recommended
  model of \<^verbatim>\<open>getDeviceCapabilities()\<close> is \<^verbatim>\<open>_selectOptimalModel()\<close>. Calling \<^verbatim>\<open>init\<close>
  on the \<^verbatim>\<open>null\<close> that a failed \<^verbatim>\<open>createModel\<close> returns throws.
\<close>

definition reloadTry :: "factory \<Rightarrow> reloadEnv \<Rightarrow> system \<Rightarrow> string option \<times> system" where
  "reloadTry f env s1 =
     (let currentModelType = model (vb s1)
      in case createModel ''auto'' emptyConfig (reloadImportOk env) f of
           (newModel, f1) \<Rightarrow>
             (let newType =
                    (case userPreferredModel f1 of
                       Some p \<Rightarrow> if p \<noteq> [] then p else selectOptimalModel f1
                     | None \<Rightarrow> selectOptimalModel f1);
                  s2 = s1 \<lparr> modelFactory := Some f1,
                            vb := (vb s1) \<lparr> model := newType \<rparr> \<rparr>;
                  s3 = (case activeModel (vb s2) of
                          Some a \<Rightarrow> addEffect (DisposeModel (adapterId a)) s2
                        | None \<Rightarrow> s2);
                  s4 = (if toLowerCase currentModelType \<noteq> toLowerCase newType
                        then resetAndSaveMetrics currentModelType (reloadNow env)
                               (reloadDisplayedFps env) s3
                        else s3)
              in case newModel of
                   None \<Rightarrow>
                     (Some ''Cannot read properties of null'',
                      s4 \<lparr> vb := (vb s4) \<lparr> activeModel := None \<rparr>,
                           currentModelText := newType \<rparr>)
                 | Some cls \<Rightarrow>
                     (let a = \<lparr> adapterId = created s4, adapterKind = cls \<rparr>;
                          s5 = addEffect (InitModel (adapterId a))
                                 (s4 \<lparr> created := created s4 + 1,
                                       vb := (vb s4) \<lparr> activeModel := Some a \<rparr>,
                                       currentModelText := newType \<rparr>)
                      in case reloadInitOutcome env of
                           InitTrue \<Rightarrow>
                             (None,
                              showAlert (newType @ '' model loaded successfully'') ''success''
                                s5)
                         | InitFalse \<Rightarrow>
                             (Some (''Failed to initialize '' @ newType @ '' model''), s5)
                         | InitThrows message \<Rightarrow> (Some message, s5))))"

text \<open>
  \<^verbatim>\<open>reloadBackgroundModel()\<close>, run to its end. \<^verbatim>\<open>toggle\<close> ignores the argument it is
  called with here: it flips the flag. An error thrown in the \<^verbatim>\<open>try\<close> block, also by
  the call of \<^verbatim>\<open>toggle\<close> at its end, is handled by the \<^verbatim>\<open>catch\<close> block.
\<close>

definition reloadBackgroundModel :: "reloadEnv \<Rightarrow> system \<Rightarrow> bool option \<times> system" where
  "reloadBackgroundModel env s =
     (let wasEnabled = enabled (vb s);
          s1 = (if wasEnabled then snd (toggle (reloadToggleEnv env) s) else s);
          currentModelType = model (vb s1)
      in case modelFactory s1 of
           None \<Rightarrow> (Some False, updateDebugInfo ''Model factory not available'' s1)
         | Some f \<Rightarrow>
             (case reloadTry f env s1 of
                (Some message, s5) \<Rightarrow>
                  reloadCatch wasEnabled currentModelType message env s5
              | (None, s6) \<Rightarrow>
                  if wasEnabled
                  then (case toggle (reloadToggleEnv env) s6 of
                          (Completed, s7) \<Rightarrow> (Some True, s7)
                        | (Threw, s7) \<Rightarrow>
                            reloadCatch wasEnabled currentModelType
                              ''Cannot read properties of null'' env s7)
                  else (Some True, s6)))"

text \<open>
  \<^verbatim>\<open>ModelLabUI._selectModel(modelId, config)\<close>. The model lab holds the factory that
  \<^verbatim>\<open>window.modelFactory\<close> refers to. The value \<^verbatim>\<open>setUserPreferredModel\<close> returns is not
  read, and the background model is reloaded in either case. The redrawing of the list
  of models is left out.
\<close>

definition selectModel :: "string \<Rightarrow> config \<Rightarrow> reloadEnv \<Rightarrow> system \<Rightarrow> system" where
  "selectModel modelId cfg env s =
     (let s1 = updateDebugInfo (''Selecting model: '' @ modelId @ '' with config:'') s
      in case modelFactory s1 of
           None \<Rightarrow> updateDebugInfo ''Error changing model'' s1
         | Some f \<Rightarrow>
             (let f1 = (if modelId = ''auto'' then snd (resetUserPreferredModel f)
                        else snd (setUserPreferredModel modelId cfg f))
              in case reloadBackgroundModel env (s1 \<lparr> modelFactory := Some f1 \<rparr>) of
                   (Some b, s2) \<Rightarrow>
                     updateDebugInfo (''Model changed to '' @ modelId @ '' successfully'') s2
                 | (None, s2) \<Rightarrow> updateDebugInfo ''Error changing model'' s2))"



fun disposedModels :: "effect list \<Rightarrow> nat list" where
  "disposedModels [] = []"
| "disposedModels (DisposeModel a # es) = a # disposedModels es"
| "disposedModels (e # es) = disposedModels es"

text \<open>
  Environments in which every import succeeds and every \<^verbatim>\<open>init()\<close> resolves to
  \<^verbatim>\<open>true\<close>, with the next video frame at hand when the loop starts.
\<close>

definition initTrueEnv :: toggleEnv where
  "initTrueEnv =
     \<lparr> envNow = 50, envImportOk = (\<lambda>cls. True), envInitOutcome = InitTrue,
       envCanvasTrack = canvasTrack, envVideoTime = 1 / 30 \<rparr>"

definition reloadTrueEnv :: reloadEnv where
  "reloadTrueEnv =
     \<lparr> reloadNow = 45, reloadDisplayedFps = 30, reloadImportOk = (\<lambda>cls. True),
       reloadInitOutcome = InitTrue, reloadToggleEnv = initTrueEnv \<rparr>"









section \<open>Properties of the metrics aggregator\<close>

lemma mostRecent_length: "length (mostRecent n xs) = min n (length xs)"
  by (simp add: mostRecent_def)

lemma pushShift_mostRecent:
  assumes "length xs \<le> MAX_MEASUREMENTS"
  shows "pushShift x xs = mostRecent MAX_MEASUREMENTS (xs @ [x])"
proof (cases "length xs = MAX_MEASUREMENTS")
  case True
  then show ?thesis
    by (cases xs) (simp_all add: pushShift_def mostRecent_def MAX_MEASUREMENTS_def)
next
  case False
  with assms have "length xs < MAX_MEASUREMENTS" by simp
  then show ?thesis by (simp add: pushShift_def mostRecent_def)
qed

lemma mostRecent_append:
  "mostRecent n (mostRecent n xs @ ys) = mostRecent n (xs @ ys)"
proof (cases "length xs \<le> n")
  case True
  then show ?thesis by (simp add: mostRecent_def)
next
  case False
  then have "length xs - n + n = length xs" by simp
  with False show ?thesis by (simp add: mostRecent_def add.commute)
qed

lemma mostRecent_all: "length xs \<le> n \<Longrightarrow> mostRecent n xs = xs"
  by (simp add: mostRecent_def)

lemma segmentationTimes_recordSamples:
  "length (segmentationTimes m) \<le> MAX_MEASUREMENTS \<Longrightarrow>
   segmentationTimes (recordSamples ss m) =
     mostRecent MAX_MEASUREMENTS (segmentationTimes m @ map sampleSegmentationTime ss)"
proof (induction ss arbitrary: m)
  case Nil
  then show ?case by (simp add: mostRecent_all)
next
  case (Cons s ss)
  let ?m = "updatePerformanceMetrics (sampleSegmentationTime s) (sampleFrameTime s) (sampleNow s) m"
  have seg: "segmentationTimes ?m =
      mostRecent MAX_MEASUREMENTS (segmentationTimes m @ [sampleSegmentationTime s])"
    using Cons.prems by (simp add: updatePerformanceMetrics_def pushShift_mostRecent)
  then have "length (segmentationTimes ?m) \<le> MAX_MEASUREMENTS"
    by (simp add: mostRecent_length)
  from Cons.IH [OF this] show ?case
    by (simp add: seg mostRecent_append)
qed

lemma frameTimes_recordSamples_from:
  "length (frameTimes m) \<le> MAX_MEASUREMENTS \<Longrightarrow> lastFrameTime m \<noteq> 0 \<Longrightarrow>
   list_all (\<lambda>s. sampleNow s \<noteq> 0) ss \<Longrightarrow>
   frameTimes (recordSamples ss m) =
     mostRecent MAX_MEASUREMENTS (frameTimes m @ deltasFrom (lastFrameTime m) ss)"
proof (induction ss arbitrary: m)
  case Nil
  then show ?case by (simp add: mostRecent_all)
next
  case (Cons s ss)
  let ?m = "updatePerformanceMetrics (sampleSegmentationTime s) (sampleFrameTime s) (sampleNow s) m"
  have ft: "frameTimes ?m =
      mostRecent MAX_MEASUREMENTS (frameTimes m @ [sampleNow s - lastFrameTime m])"
    using Cons.prems by (simp add: updatePerformanceMetrics_def pushShift_mostRecent)
  have l: "lastFrameTime ?m = sampleNow s"
    by (simp add: updatePerformanceMetrics_def)
  have "length (frameTimes ?m) \<le> MAX_MEASUREMENTS"
    by (simp add: ft mostRecent_length)
  moreover have "lastFrameTime ?m \<noteq> 0" using Cons.prems by (simp add: l)
  moreover have "list_all (\<lambda>s. sampleNow s \<noteq> 0) ss" using Cons.prems by simp
  ultimately have "frameTimes (recordSamples ss ?m) =
      mostRecent MAX_MEASUREMENTS (frameTimes ?m @ deltasFrom (lastFrameTime ?m) ss)"
    by (rule Cons.IH)
  then show ?case
    by (simp add: ft l mostRecent_append)
qed

lemma deltasFrom_interFrameDeltas:
  "deltasFrom (sampleNow s) ss = interFrameDeltas (s # ss)"
  by (induction ss arbitrary: s) (simp_all add: interFrameDeltas_def)

lemma frameTimes_recordSamples:
  assumes "list_all (\<lambda>s. sampleNow s \<noteq> 0) ss"
  shows "frameTimes (recordSamples ss (resetMetrics t0 m)) =
           mostRecent MAX_MEASUREMENTS (interFrameDeltas ss)"
proof (cases ss)
  case Nil
  then show ?thesis
    by (simp add: resetMetrics_def interFrameDeltas_def mostRecent_def)
next
  case (Cons s ss')
  let ?m = "updatePerformanceMetrics (sampleSegmentationTime s) (sampleFrameTime s) (sampleNow s)
              (resetMetrics t0 m)"
  have "frameTimes ?m = []" "lastFrameTime ?m = sampleNow s"
    by (simp_all add: updatePerformanceMetrics_def resetMetrics_def)
  moreover have "sampleNow s \<noteq> 0" "list_all (\<lambda>s. sampleNow s \<noteq> 0) ss'"
    using assms Cons by simp_all
  ultimately have "frameTimes (recordSamples ss' ?m) =
      mostRecent MAX_MEASUREMENTS ([] @ deltasFrom (sampleNow s) ss')"
    using frameTimes_recordSamples_from [of ?m ss'] by simp
  then show ?thesis
    using Cons by (simp add: deltasFrom_interFrameDeltas)
qed

lemma length_interFrameDeltas: "length (interFrameDeltas ss) = length ss - 1"
  by (simp add: interFrameDeltas_def)

text \<open>
  Claim C2 (metrics window bound). Starting from freshly reset metrics, after any run of
  recorded samples whose clock readings are not zero, the window of segmentation
  latencies is the most recent 30 of the recorded latencies and the window of inter-frame
  deltas is the most recent 30 of the deltas between consecutive samples; neither window
  is ever longer than 30, and once more than 30 samples have been recorded both hold
  exactly 30 entries. Eviction is first-in first-out because the most recent entries are a
  suffix of the history.
\<close>

theorem metrics_window_bound:
  assumes "list_all (\<lambda>s. sampleNow s \<noteq> 0) ss"
  shows "segmentationTimes (recordSamples ss (resetMetrics t0 m)) =
           mostRecent MAX_MEASUREMENTS (map sampleSegmentationTime ss)
       \<and> frameTimes (recordSamples ss (resetMetrics t0 m)) =
           mostRecent MAX_MEASUREMENTS (interFrameDeltas ss)
       \<and> length (segmentationTimes (recordSamples ss (resetMetrics t0 m))) \<le> MAX_MEASUREMENTS
       \<and> length (frameTimes (recordSamples ss (resetMetrics t0 m))) \<le> MAX_MEASUREMENTS
       \<and> (length ss > MAX_MEASUREMENTS \<longrightarrow>
            length (segmentationTimes (recordSamples ss (resetMetrics t0 m))) = MAX_MEASUREMENTS
          \<and> length (frameTimes (recordSamples ss (resetMetrics t0 m))) = MAX_MEASUREMENTS)"
proof -
  have "length (segmentationTimes (resetMetrics t0 m)) \<le> MAX_MEASUREMENTS"
    by (simp add: resetMetrics_def)
  from segmentationTimes_recordSamples [OF this, of ss]
  have seg: "segmentationTimes (recordSamples ss (resetMetrics t0 m)) =
      mostRecent MAX_MEASUREMENTS (map sampleSegmentationTime ss)"
    by (simp add: resetMetrics_def)
  note ft = frameTimes_recordSamples [OF assms, of t0 m]
  show ?thesis
    unfolding seg ft
    by (auto simp: mostRecent_length length_interFrameDeltas)
qed

theorem metrics_window_bound_witness:
  "list_all (\<lambda>s. sampleNow s \<noteq> 0) exampleSamples
   \<and> length exampleSamples > MAX_MEASUREMENTS
   \<and> segmentationTimes (recordSamples exampleSamples (resetMetrics 0 initialMetrics)) =
       map sampleSegmentationTime (tl exampleSamples)
   \<and> length (frameTimes (recordSamples exampleSamples (resetMetrics 0 initialMetrics))) = 30"
proof -
  have h: "list_all (\<lambda>s. sampleNow s \<noteq> 0) exampleSamples"
    by (simp add: exampleSamples_def list_all_iff)
  have l: "length exampleSamples = 31" by (simp add: exampleSamples_def)
  have m: "mostRecent MAX_MEASUREMENTS (map sampleSegmentationTime exampleSamples) =
      map sampleSegmentationTime (tl exampleSamples)"
    by (simp add: mostRecent_def MAX_MEASUREMENTS_def l drop_Suc map_tl)
  show ?thesis
    using h l m metrics_window_bound [OF h, of 0 initialMetrics]
    by (simp add: MAX_MEASUREMENTS_def mostRecent_length length_interFrameDeltas)
qed

section \<open>Selection of a backend\<close>

lemma selectOptimalModel_mediapipe: "selectOptimalModel f = ''mediapipe''"
  by (simp add: selectOptimalModel_def)

lemma fst_importModel:
  "fst (importModel cls modelType importOk f) =
     (if importOk cls then Some cls
      else if importOk MediaPipeModel then Some MediaPipeModel else None)"
  by (simp add: importModel_def fallbackModel_def)

lemma userPreferredModel_debugCallback:
  "userPreferredModel (debugCallback reason f) = userPreferredModel f"
  by (simp add: debugCallback_def)

lemma fst_createModel:
  "fst (createModel modelType options importOk f) =
     (let t = (case userPreferredModel f of
                 Some p \<Rightarrow> if p \<noteq> [] \<and> modelType = ''auto'' then p else modelType
               | None \<Rightarrow> modelType);
          cls = (if t = ''auto'' then MediaPipeModel
                 else if toLowerCase t = ''bodypix'' then BodyPixModel else MediaPipeModel)
      in if importOk cls then Some cls
         else if importOk MediaPipeModel then Some MediaPipeModel else None)"
proof -
  have lower: "toLowerCase ''mediapipe'' = ''mediapipe''"
    by (simp add: toLowerCase_def lowerChar_def)
  show ?thesis
    unfolding createModel_def Let_def selectOptimalModel_mediapipe
    by (auto simp: lower fst_importModel split: option.splits)
qed

lemma createModel_debugCallback:
  "fst (createModel modelType options importOk (debugCallback reason f)) =
   fst (createModel modelType options importOk f)"
  by (simp only: fst_createModel userPreferredModel_debugCallback)

lemma lowerChar_not_upper: "lowerChar c \<notin> set ''ABCDEFGHIJKLMNOPQRSTUVWXYZ''"
  by (simp add: lowerChar_def)

lemma toLowerCase_no_upper:
  "c \<in> set ''ABCDEFGHIJKLMNOPQRSTUVWXYZ'' \<Longrightarrow> c \<notin> set (toLowerCase s)"
  using lowerChar_not_upper by (auto simp: toLowerCase_def)

lemma toLowerCase_inherited:
  "toLowerCase s \<in> set objectPrototypeKeys \<longleftrightarrow>
   toLowerCase s = ''constructor'' \<or> toLowerCase s = ''__proto__''"
proof -
  have "toLowerCase s \<noteq> k" if "c \<in> set k" "c \<in> set ''ABCDEFGHIJKLMNOPQRSTUVWXYZ''" for c k
    using that toLowerCase_no_upper [of c s] by auto
  note n = this
  have "toLowerCase s \<noteq> ''__defineGetter__''" by (rule n [of "CHR ''G''"]) simp_all
  moreover have "toLowerCase s \<noteq> ''__defineSetter__''" by (rule n [of "CHR ''S''"]) simp_all
  moreover have "toLowerCase s \<noteq> ''hasOwnProperty''" by (rule n [of "CHR ''O''"]) simp_all
  moreover have "toLowerCase s \<noteq> ''__lookupGetter__''" by (rule n [of "CHR ''G''"]) simp_all
  moreover have "toLowerCase s \<noteq> ''__lookupSetter__''" by (rule n [of "CHR ''S''"]) simp_all
  moreover have "toLowerCase s \<noteq> ''isPrototypeOf''" by (rule n [of "CHR ''P''"]) simp_all
  moreover have "toLowerCase s \<noteq> ''propertyIsEnumerable''" by (rule n [of "CHR ''I''"]) simp_all
  moreover have "toLowerCase s \<noteq> ''toString''" by (rule n [of "CHR ''S''"]) simp_all
  moreover have "toLowerCase s \<noteq> ''valueOf''" by (rule n [of "CHR ''O''"]) simp_all
  moreover have "toLowerCase s \<noteq> ''toLocaleString''" by (rule n [of "CHR ''L''"]) simp_all
  ultimately show ?thesis
    by (simp add: objectPrototypeKeys_def)
qed

text \<open>
  What the table gives for a lower-cased key: the two implemented models, the two
  planned ones, the two inherited names, and nothing else.
\<close>

lemma lookupModel_lower:
  "lookupModel (toLowerCase s) =
     (if toLowerCase s = ''mediapipe'' then
        OwnEntry \<lparr> modelName = ''MediaPipe'',
                   description = Some ''Google MediaPipe Selfie Segmentation'',
                   variants = [], isImplemented = True \<rparr>
      else if toLowerCase s = ''bodypix'' then
        OwnEntry \<lparr> modelName = ''BodyPix'',
                   description = Some ''TensorFlow.js BodyPix (640x360, ~11 FPS)'',
                   variants = [], isImplemented = True \<rparr>
      else if toLowerCase s = ''mlkit'' then
        OwnEntry (the (map_of availableModels ''mlkit''))
      else if toLowerCase s = ''meet'' then
        OwnEntry (the (map_of availableModels ''meet''))
      else if toLowerCase s = ''constructor'' \<or> toLowerCase s = ''__proto__''
      then InheritedValue
      else Undefined)"
  unfolding lookupModel_def toLowerCase_inherited
  by (simp add: availableModels_def)

lemma planned_not_implemented:
  "\<not> isImplemented (the (map_of availableModels ''mlkit''))"
  "\<not> isImplemented (the (map_of availableModels ''meet''))"
  by (simp_all add: availableModels_def)

lemma unsupportedSelection_iff:
  "unsupportedSelection f modelType cfg \<longleftrightarrow>
     (toLowerCase modelType \<noteq> ''mediapipe'' \<and> toLowerCase modelType \<noteq> ''bodypix'')
     \<or> (configSimdRequired cfg \<and> \<not> simdSupport f)"
  by (simp add: unsupportedSelection_def lookupModel_lower planned_not_implemented)

text \<open>
  Claim C6 (no silent downgrade), as the code has it. \<^verbatim>\<open>setUserPreferredModel\<close>
  rejects an unsupported selection: it returns \<^verbatim>\<open>false\<close> and hands the debug callback
  the message that names the model and the reason (SIMD is required but missing, for an
  implemented model; not implemented yet, for a planned model or a name inherited by the
  table; not found, for any other name). Nothing else in the factory changes, so the
  stored preference is the one from before and a later \<^verbatim>\<open>createModel\<close> yields the same
  adapter class as it would have without the rejected selection.
\<close>

theorem unsupported_selection_rejected:
  assumes "unsupportedSelection f modelType cfg"
  shows "setUserPreferredModel modelType cfg f =
           (False,
            f \<lparr> debugLog := debugLog f @
                 [''Model '' @ modelType @
                    (if toLowerCase modelType = ''mediapipe'' \<or> toLowerCase modelType = ''bodypix''
                     then '' requires SIMD but browser doesn't support it''
                     else if toLowerCase modelType = ''mlkit'' \<or> toLowerCase modelType = ''meet''
                             \<or> toLowerCase modelType = ''constructor''
                             \<or> toLowerCase modelType = ''__proto__''
                     then '' is not implemented yet''
                     else '' not found in available models'')] \<rparr>)
       \<and> userPreferredModel (snd (setUserPreferredModel modelType cfg f)) = userPreferredModel f
       \<and> userPreferredConfig (snd (setUserPreferredModel modelType cfg f)) = userPreferredConfig f
       \<and> fst (createModel t options importOk (snd (setUserPreferredModel modelType cfg f))) =
           fst (createModel t options importOk f)"
proof -
  let ?msg = "''Model '' @ modelType @
                    (if toLowerCase modelType = ''mediapipe'' \<or> toLowerCase modelType = ''bodypix''
                     then '' requires SIMD but browser doesn't support it''
                     else if toLowerCase modelType = ''mlkit'' \<or> toLowerCase modelType = ''meet''
                             \<or> toLowerCase modelType = ''constructor''
                             \<or> toLowerCase modelType = ''__proto__''
                     then '' is not implemented yet''
                     else '' not found in available models'')"
  from assms have u:
    "(toLowerCase modelType \<noteq> ''mediapipe'' \<and> toLowerCase modelType \<noteq> ''bodypix'')
     \<or> (configSimdRequired cfg \<and> \<not> simdSupport f)"
    by (simp only: unsupportedSelection_iff)
  have r: "setUserPreferredModel modelType cfg f = (False, debugCallback ?msg f)"
    using u
    by (auto simp: setUserPreferredModel_def lookupModel_lower planned_not_implemented)
  show ?thesis
    unfolding r
    by (simp add: createModel_debugCallback) (simp add: debugCallback_def)
qed

theorem unsupported_selection_rejected_witness:
  "unsupportedSelection newFactory ''meet'' emptyConfig
   \<and> unsupportedSelection newFactory ''MediaPipe'' \<lparr> configSimdRequired = True \<rparr>
   \<and> unsupportedSelection newFactory ''constructor'' emptyConfig
   \<and> unsupportedSelection newFactory ''sam2'' emptyConfig
   \<and> debugLog (snd (setUserPreferredModel ''MediaPipe'' \<lparr> configSimdRequired = True \<rparr>
                       newFactory)) =
       [''Model MediaPipe requires SIMD but browser doesn't support it'']
   \<and> debugLog (snd (setUserPreferredModel ''meet'' emptyConfig newFactory)) =
       [''Model meet is not implemented yet'']
   \<and> debugLog (snd (setUserPreferredModel ''constructor'' emptyConfig newFactory)) =
       [''Model constructor is not implemented yet'']
   \<and> debugLog (snd (setUserPreferredModel ''sam2'' emptyConfig newFactory)) =
       [''Model sam2 not found in available models'']
   \<and> fst (setUserPreferredModel ''meet'' emptyConfig newFactory) = False
   \<and> userPreferredModel (snd (setUserPreferredModel ''meet'' emptyConfig newFactory)) = None"
proof -
  have l: "toLowerCase ''meet'' = ''meet''" "toLowerCase ''MediaPipe'' = ''mediapipe''"
    "toLowerCase ''constructor'' = ''constructor''" "toLowerCase ''sam2'' = ''sam2''"
    by (simp_all add: toLowerCase_def lowerChar_def)
  have u: "unsupportedSelection newFactory ''meet'' emptyConfig"
    and v: "unsupportedSelection newFactory ''MediaPipe'' \<lparr> configSimdRequired = True \<rparr>"
    and w: "unsupportedSelection newFactory ''constructor'' emptyConfig"
    and x: "unsupportedSelection newFactory ''sam2'' emptyConfig"
    by (simp_all add: unsupportedSelection_iff l newFactory_def)
  show ?thesis
    using u v w x
      unsupported_selection_rejected [OF u, of "''auto''" emptyConfig "\<lambda>_. True"]
      unsupported_selection_rejected [OF v, of "''auto''" emptyConfig "\<lambda>_. True"]
      unsupported_selection_rejected [OF w, of "''auto''" emptyConfig "\<lambda>_. True"]
      unsupported_selection_rejected [OF x, of "''auto''" emptyConfig "\<lambda>_. True"]
    by (simp add: l newFactory_def)
qed


section \<open>Adapter initialisation\<close>

text \<open>
  \<^verbatim>\<open>MediaPipeModel.init\<close> is idempotent: a second call, before or after the load has
  finished or failed, returns the promise of the first call and creates no instance.
\<close>

lemma mediaPipe_init_idempotent:
  "mediaPipeInit m n = (p, m1, n1) \<Longrightarrow>
     mediaPipeInit m1 n1 = (p, m1, n1)
   \<and> mediaPipeInit (mediaPipeLoaded p m1) n1 = (p, mediaPipeLoaded p m1, n1)
   \<and> mediaPipeInit (mediaPipeLoadFailed m1) n1 = (p, mediaPipeLoadFailed m1, n1)"
  by (auto simp: mediaPipeInit_def mediaPipeLoaded_def mediaPipeLoadFailed_def
      split: option.splits)

text \<open>
  Claim C8 (init idempotence) at \<^verbatim>\<open>BodyPixModel\<close>: \<^verbatim>\<open>init\<close> has no guard. Called twice
  on a fresh adapter, while the first load is pending or after it has finished, it starts
  a second load and a second model is created.
\<close>

theorem bodyPix_init_allocates_twice:
  "(case bodyPixInit newBodyPix 0 of
      (h1, b1, c1) \<Rightarrow>
        (case bodyPixInit b1 c1 of (h2, b2, c2) \<Rightarrow> h1 \<noteq> h2 \<and> c1 = 1 \<and> c2 = 2))
   \<and> (case bodyPixInit newBodyPix 0 of
      (h1, b1, c1) \<Rightarrow>
        (case bodyPixInit (bodyPixLoaded h1 b1) c1 of
           (h2, b2, c2) \<Rightarrow> h1 \<noteq> h2 \<and> c1 = 1 \<and> c2 = 2))"
  by (simp add: bodyPixInit_def)

section \<open>The in-flight flag of the MediaPipe adapter\<close>

lemma processFrameStart_flag:
  "processFrameStart c bt bi m = (m1, Some pr) \<Longrightarrow> processingFrame m1 = processingFrame m"
  by (auto simp: processFrameStart_def Let_def split: if_splits)

lemma processFrameStart_inference:
  "processFrameStart c bt bi m = (m1, None) \<Longrightarrow> \<not> processingFrame m"
  by (auto simp: processFrameStart_def Let_def split: if_splits)

lemma processFrameResume_flag:
  "\<not> processingFrame (fst (processFrameResume c bt bi m))"
  by (simp add: processFrameResume_def split: option.splits)

lemma processFrameCatch_flag:
  "\<not> processingFrame (fst (processFrameCatch c m))"
  by (simp add: processFrameCatch_def)

text \<open>
  Claim C10 (in-flight flag release), as the code has it. A call that starts an inference
  clears the flag on each of its exits (no results, success, caught error), whatever
  happened to the adapter while the request was pending. The not-initialised, frame-skip
  and still-processing paths do not touch the flag. So a settled call leaves the flag as
  it found it: entered with the flag clear, it leaves it clear.
\<close>

theorem in_flight_flag_released:
  "processingFrame (fst (processFrame c bt bi delivered outcome m)) = processingFrame m
   \<and> (snd (processFrameStart c bt bi m) = None \<longrightarrow>
        \<not> processingFrame (fst (processFrame c bt bi delivered outcome m)))
   \<and> \<not> processingFrame (fst (processFrameResume c bt bi m'))
   \<and> \<not> processingFrame (fst (processFrameCatch c m'))"
proof -
  obtain m1 r where s: "processFrameStart c bt bi m = (m1, r)"
    by (cases "processFrameStart c bt bi m")
  have "processingFrame (fst (processFrame c bt bi delivered outcome m)) = processingFrame m"
  proof (cases r)
    case None
    with s have "\<not> processingFrame m" by (simp add: processFrameStart_inference)
    with s None show ?thesis
      by (cases outcome)
        (simp_all add: processFrame_def processFrameResume_flag processFrameCatch_flag)
  next
    case (Some pr)
    with s show ?thesis
      by (cases pr) (simp add: processFrame_def processFrameStart_flag)
  qed
  moreover have "snd (processFrameStart c bt bi m) = None \<longrightarrow> \<not> processingFrame m"
    using s by (auto simp: processFrameStart_inference)
  ultimately show ?thesis
    by (simp add: processFrameResume_flag processFrameCatch_flag)
qed

theorem in_flight_flag_released_witness:
  "snd (processFrameStart exampleClock ''blur'' None
          (mediaPipeLoaded 0 (newMediaPipe \<lparr> skippedFrames := 1 \<rparr>))) = None
   \<and> \<not> processingFrame (fst (processFrame exampleClock ''blur'' None [7] SendResolves
          (mediaPipeLoaded 0 (newMediaPipe \<lparr> skippedFrames := 1 \<rparr>))))
   \<and> \<not> processingFrame (fst (processFrame exampleClock ''blur'' None [] SendRejects
          (mediaPipeLoaded 0 (newMediaPipe \<lparr> skippedFrames := 1 \<rparr>))))"
proof -
  have "snd (processFrameStart exampleClock ''blur'' None
          (mediaPipeLoaded 0 (newMediaPipe \<lparr> skippedFrames := 1 \<rparr>))) = None"
    by (simp add: processFrameStart_def mediaPipeLoaded_def newMediaPipe_def)
  then show ?thesis
    using in_flight_flag_released
      [of exampleClock "''blur''" None "[7]" SendResolves
          "mediaPipeLoaded 0 (newMediaPipe \<lparr> skippedFrames := 1 \<rparr>)" newMediaPipe]
      in_flight_flag_released
      [of exampleClock "''blur''" None "[]" SendRejects
          "mediaPipeLoaded 0 (newMediaPipe \<lparr> skippedFrames := 1 \<rparr>)" newMediaPipe]
    by (simp add: mediaPipeLoaded_def newMediaPipe_def)
qed

text \<open>
  The claim as stated fails on the still-processing path: a call that finds the flag set
  returns with the flag still set.
\<close>

theorem still_processing_keeps_flag_counterexample:
  "processingFrame
     (fst (processFrame exampleClock ''none'' None [] SendResolves busyMediaPipe))"
  by (simp add: processFrame_def processFrameStart_def busyMediaPipe_def)


section \<open>The capture loop\<close>

lemma addEffect_fields:
  "inFlight (addEffect e s) = inFlight s"
  "pendingFrames (addEffect e s) = pendingFrames s"
  "nextHandle (addEffect e s) = nextHandle s"
  "vb (addEffect e s) = vb s"
  "metrics (addEffect e s) = metrics s"
  "localVideo (addEffect e s) = localVideo s"
  "effects (addEffect e s) = effects s @ [e]"
  by (simp_all add: addEffect_def)

lemma scheduleNextFrame_fields:
  "inFlight (scheduleNextFrame s) = inFlight s"
  "pendingFrames (scheduleNextFrame s) = pendingFrames s @ [nextHandle s]"
  "metrics (scheduleNextFrame s) = metrics s"
  "effects (scheduleNextFrame s) = effects s @ [RequestAnimationFrame (nextHandle s)]"
  "lastProcessedVideoTime (vb (scheduleNextFrame s)) = lastProcessedVideoTime (vb s)"
  by (simp_all add: scheduleNextFrame_def addEffect_fields)

lemma cancelScheduledFrame_fields:
  "inFlight (cancelScheduledFrame s) = inFlight s"
  "length (pendingFrames (cancelScheduledFrame s)) \<le> length (pendingFrames s)"
  "metrics (cancelScheduledFrame s) = metrics s"
  "lastProcessedVideoTime (vb (cancelScheduledFrame s)) = lastProcessedVideoTime (vb s)"
  by (simp_all add: cancelScheduledFrame_def addEffect_fields split: option.splits)

lemma requestFrame_fields:
  "inFlight (requestFrame s) = inFlight s"
  "pendingFrames (requestFrame s) = pendingFrames s"
  "nextHandle (requestFrame s) = nextHandle s"
  "vb (requestFrame s) = vb s"
  "metrics (requestFrame s) = metrics s"
  "effects (requestFrame s) = effects s @ (if videoTrack (vb s) \<noteq> None then [RequestFrame] else [])"
  by (simp_all add: requestFrame_def addEffect_fields)

lemma selectBackgroundImage_fields:
  "inFlight (snd (selectBackgroundImage s)) = inFlight s"
  "pendingFrames (snd (selectBackgroundImage s)) = pendingFrames s"
  "metrics (snd (selectBackgroundImage s)) = metrics s"
  "lastProcessedVideoTime (vb (snd (selectBackgroundImage s))) = lastProcessedVideoTime (vb s)"
  by (simp_all add: selectBackgroundImage_def Let_def updateDebugInfo_def addEffect_fields)

lemma applyVirtualBackground_count:
  "inFlight (applyVirtualBackground t s) + length (pendingFrames (applyVirtualBackground t s)) =
   inFlight s + length (pendingFrames s) + 1"
proof (cases "activeModel (vb s)")
  case None
  then show ?thesis by (simp add: applyVirtualBackground_def scheduleNextFrame_fields)
next
  case (Some a)
  obtain bi s1 where sel: "selectBackgroundImage s = (bi, s1)"
    by (cases "selectBackgroundImage s")
  then have "inFlight s1 = inFlight s" "pendingFrames s1 = pendingFrames s"
    using selectBackgroundImage_fields [of s] by simp_all
  with Some sel show ?thesis
    by (simp add: applyVirtualBackground_def scheduleNextFrame_fields addEffect_fields)
qed

lemma processVideoFrames_count:
  "inFlight (processVideoFrames t s) + length (pendingFrames (processVideoFrames t s)) \<le>
   inFlight s + length (pendingFrames s) + 1"
proof -
  have "inFlight (cancelScheduledFrame s) + length (pendingFrames (cancelScheduledFrame s))
        \<le> inFlight s + length (pendingFrames s) + 1"
    using cancelScheduledFrame_fields(1,2) [of s] by simp
  then show ?thesis
    by (simp add: processVideoFrames_def scheduleNextFrame_fields applyVirtualBackground_count)
qed

lemma processFrameSettled_count:
  "inFlight (processFrameSettled outcome now s)
     + length (pendingFrames (processFrameSettled outcome now s)) =
   inFlight s + length (pendingFrames s) + 1"
  by (cases outcome)
    (simp_all add: processFrameSettled_def Let_def scheduleNextFrame_fields requestFrame_fields
      drawVideo_def updateDebugInfo_def addEffect_fields)

lemma step_count:
  assumes "inFlight s + length (pendingFrames s) \<le> 1"
  shows "inFlight (step ev s) + length (pendingFrames (step ev s)) \<le> 1"
proof (cases ev)
  case (AnimationFrame t)
  show ?thesis
  proof (cases "pendingFrames s")
    case Nil
    with AnimationFrame assms show ?thesis by (simp add: step_def)
  next
    case (Cons h hs)
    with assms have "inFlight s = 0" "hs = []" by simp_all
    with Cons AnimationFrame show ?thesis
      using processVideoFrames_count [of t "s \<lparr> pendingFrames := hs \<rparr>"]
      by (simp add: step_def)
  qed
next
  case (ProcessFrameSettles outcome now)
  show ?thesis
  proof (cases "inFlight s = 0")
    case True
    with ProcessFrameSettles assms show ?thesis by (simp add: step_def)
  next
    case False
    with assms have "inFlight s = 1" "pendingFrames s = []"
      by (cases "pendingFrames s"; simp)+
    with ProcessFrameSettles show ?thesis
      using processFrameSettled_count [of outcome now "s \<lparr> inFlight := inFlight s - 1 \<rparr>"]
      by (simp add: step_def)
  qed
qed

lemma run_count:
  "inFlight s + length (pendingFrames s) \<le> 1 \<Longrightarrow>
   inFlight (run evs s) + length (pendingFrames (run evs s)) \<le> 1"
proof (induction evs arbitrary: s)
  case Nil
  then show ?case by simp
next
  case (Cons ev evs)
  from Cons.IH [OF step_count [OF Cons.prems]] show ?case by simp
qed

lemma processFrameStart_busy:
  assumes "processingFrame m"
  shows "snd (processFrameStart c bt bi m) \<noteq> None"
    and "isInitialized m \<Longrightarrow> segmenter m \<noteq> None \<Longrightarrow>
         map_option fst (snd (processFrameStart c bt bi m)) = Some (drawLastResults m bt bi)"
  using assms by (auto simp: processFrameStart_def Let_def)

lemmas loop_defs = step_def processVideoFrames_def applyVirtualBackground_def
  processFrameSettled_def scheduleNextFrame_def cancelScheduledFrame_def requestFrame_def
  drawVideo_def updateDebugInfo_def addEffect_def selectBackgroundImage_def imageReady_def

lemma processFrameTimes_append:
  "processFrameTimes (xs @ ys) = processFrameTimes xs @ processFrameTimes ys"
  by (induction xs rule: processFrameTimes.induct) simp_all

lemma scheduleNextFrame_attempts:
  "processFrameTimes (effects (scheduleNextFrame s)) = processFrameTimes (effects s)"
  by (simp add: scheduleNextFrame_fields processFrameTimes_append)

lemma cancelScheduledFrame_attempts:
  "processFrameTimes (effects (cancelScheduledFrame s)) = processFrameTimes (effects s)"
  by (simp add: cancelScheduledFrame_def addEffect_def processFrameTimes_append
      split: option.splits)

lemma selectBackgroundImage_attempts:
  "processFrameTimes (effects (snd (selectBackgroundImage s))) = processFrameTimes (effects s)"
  by (simp add: selectBackgroundImage_def Let_def updateDebugInfo_def addEffect_def
      processFrameTimes_append)

lemma applyVirtualBackground_attempts:
  "processFrameTimes (effects (applyVirtualBackground t s)) =
     processFrameTimes (effects s)
       @ (if activeModel (vb s) \<noteq> None \<and> enabled (vb s) then [t] else [])"
proof (cases "activeModel (vb s)")
  case None
  then show ?thesis by (simp add: applyVirtualBackground_def scheduleNextFrame_attempts)
next
  case (Some a)
  obtain bi s1 where sel: "selectBackgroundImage s = (bi, s1)"
    by (cases "selectBackgroundImage s")
  then have "processFrameTimes (effects s1) = processFrameTimes (effects s)"
    using selectBackgroundImage_attempts [of s] by simp
  with Some sel show ?thesis
    by (simp add: applyVirtualBackground_def scheduleNextFrame_attempts addEffect_def
        processFrameTimes_append)
qed

lemma applyVirtualBackground_time:
  "lastProcessedVideoTime (vb (applyVirtualBackground t s)) = lastProcessedVideoTime (vb s)"
proof (cases "selectBackgroundImage s")
  case (Pair bi s1)
  then have "lastProcessedVideoTime (vb s1) = lastProcessedVideoTime (vb s)"
    using selectBackgroundImage_fields(4) [of s] by simp
  with Pair show ?thesis
    by (simp add: applyVirtualBackground_def scheduleNextFrame_fields addEffect_fields
        split: option.splits)
qed

lemma processFrameSettled_attempts:
  "processFrameTimes (effects (processFrameSettled outcome now s)) = processFrameTimes (effects s)"
  "lastProcessedVideoTime (vb (processFrameSettled outcome now s)) = lastProcessedVideoTime (vb s)"
  by (cases outcome;
      simp add: processFrameSettled_def Let_def scheduleNextFrame_fields requestFrame_fields
        drawVideo_def updateDebugInfo_def addEffect_fields processFrameTimes_append)+

lemma sorted_wrt_snoc_less:
  "sorted_wrt (<) xs \<Longrightarrow> list_all (\<lambda>x. x \<le> l) xs \<Longrightarrow> l < (t::real) \<Longrightarrow>
   sorted_wrt (<) (xs @ [t])"
  by (auto simp: sorted_wrt_append list_all_iff)

lemma processVideoFrames_attempts:
  assumes "attemptsBelow s" and "lastProcessedVideoTime (vb s) \<le> t"
  shows "attemptsBelow (processVideoFrames t s)
       \<and> lastProcessedVideoTime (vb (processVideoFrames t s)) \<le> t"
proof -
  let ?s = "s \<lparr> vb := (vb s) \<lparr> lastProcessedVideoTime := t \<rparr> \<rparr>"
  have a: "attemptsBelow (applyVirtualBackground t ?s)"
    if "lastProcessedVideoTime (vb s) \<noteq> t"
  proof -
    from that assms(2) have lt: "lastProcessedVideoTime (vb s) < t" by simp
    have "list_all (\<lambda>x. x \<le> t) (processFrameTimes (effects s))"
      using assms by (auto simp: attemptsBelow_def list_all_iff)
    moreover have "sorted_wrt (<) (processFrameTimes (effects s) @ [t])"
      using assms lt by (auto simp: attemptsBelow_def intro: sorted_wrt_snoc_less)
    ultimately show ?thesis
      using assms(1)
      by (simp add: attemptsBelow_def applyVirtualBackground_attempts
          applyVirtualBackground_time)
  qed
  show ?thesis
    using assms a
    by (auto simp: processVideoFrames_def attemptsBelow_def scheduleNextFrame_attempts
        scheduleNextFrame_fields cancelScheduledFrame_attempts cancelScheduledFrame_fields
        applyVirtualBackground_time processFrameTimes_append)
qed

lemma step_attempts:
  assumes "attemptsBelow s" and "sorted (lastProcessedVideoTime (vb s) # frameTimesOf (ev # evs))"
  shows "attemptsBelow (step ev s)
       \<and> sorted (lastProcessedVideoTime (vb (step ev s)) # frameTimesOf evs)"
proof (cases ev)
  case (AnimationFrame t)
  with assms(2) have le: "lastProcessedVideoTime (vb s) \<le> t"
    and after: "sorted (t # frameTimesOf evs)" by simp_all
  show ?thesis
  proof (cases "pendingFrames s")
    case Nil
    with AnimationFrame assms show ?thesis by (auto simp: step_def)
  next
    case (Cons h hs)
    let ?s = "s \<lparr> pendingFrames := hs \<rparr>"
    have "attemptsBelow ?s" "lastProcessedVideoTime (vb ?s) \<le> t"
      using assms(1) le by (simp_all add: attemptsBelow_def)
    from processVideoFrames_attempts [OF this]
    have "attemptsBelow (processVideoFrames t ?s)"
      and "lastProcessedVideoTime (vb (processVideoFrames t ?s)) \<le> t" by simp_all
    with after Cons AnimationFrame show ?thesis
      by (auto simp: step_def)
  qed
next
  case (ProcessFrameSettles outcome now)
  with assms show ?thesis
    by (simp add: step_def attemptsBelow_def processFrameSettled_attempts)
qed

lemma run_attempts:
  "attemptsBelow s \<Longrightarrow> sorted (lastProcessedVideoTime (vb s) # frameTimesOf evs) \<Longrightarrow>
   attemptsBelow (run evs s)"
proof (induction evs arbitrary: s)
  case Nil
  then show ?case by simp
next
  case (Cons ev evs)
  from step_attempts [OF Cons.prems]
  have "attemptsBelow (step ev s)"
    and "sorted (lastProcessedVideoTime (vb (step ev s)) # frameTimesOf evs)" by simp_all
  from Cons.IH [OF this] show ?case by simp
qed

lemma strict_sorted_distinct: "sorted_wrt (<) (xs::real list) \<Longrightarrow> distinct xs"
  by (induction xs) auto

lemma alertsOf_append: "alertsOf (xs @ ys) = alertsOf xs @ alertsOf ys"
  by (induction xs rule: alertsOf.induct) simp_all









text \<open>
  Within one run of the loop: from a state in which the unsettled \<^verbatim>\<open>processFrame\<close>
  calls and the animation-frame callbacks held by the browser are together at most one,
  every run of animation frames and settlements keeps it so, because the next animation
  frame is requested only when the call has settled. And a MediaPipe adapter whose
  in-flight flag is set returns from \<^verbatim>\<open>processFrame\<close> without a request to the
  segmenter; when it is initialised it draws from the last completed results.
\<close>

lemma loop_keeps_single_in_flight:
  assumes "inFlight s + length (pendingFrames s) \<le> 1"
  shows "inFlight (run evs s) \<le> 1
       \<and> inFlight (run evs s) + length (pendingFrames (run evs s)) \<le> 1
       \<and> (processingFrame m \<longrightarrow> snd (processFrameStart c bt bi m) \<noteq> None)
       \<and> (processingFrame m \<and> isInitialized m \<and> segmenter m \<noteq> None \<longrightarrow>
            map_option fst (snd (processFrameStart c bt bi m)) = Some (drawLastResults m bt bi))"
proof -
  from run_count [OF assms, of evs]
  have "inFlight (run evs s) + length (pendingFrames (run evs s)) \<le> 1" .
  then show ?thesis
    using processFrameStart_busy [of m c bt bi] by auto
qed


text \<open>
  Claim C4 (duplicate-frame guard), as the code has it. On a tick whose video time
  equals the last processed one, \<^verbatim>\<open>processVideoFrames\<close> only requests the next animation
  frame: nothing is drawn, no frame is requested from the canvas track, the metrics are
  untouched and \<^verbatim>\<open>processFrame\<close> is not called, so the canvas keeps the previous output.
  And over any run whose video times do not decrease, \<^verbatim>\<open>processFrame\<close> is called at most
  once per video time.
\<close>

theorem duplicate_frame_guard:
  "(enabled (vb s) \<and> localVideo s \<and> lastProcessedVideoTime (vb s) = t \<longrightarrow>
      processVideoFrames t s = scheduleNextFrame s
    \<and> effects (processVideoFrames t s) = effects s @ [RequestAnimationFrame (nextHandle s)]
    \<and> inFlight (processVideoFrames t s) = inFlight s
    \<and> metrics (processVideoFrames t s) = metrics s)
   \<and> (attemptsBelow s \<and> sorted (lastProcessedVideoTime (vb s) # frameTimesOf evs) \<longrightarrow>
        distinct (processFrameTimes (effects (run evs s))))"
proof -
  have "distinct (processFrameTimes (effects (run evs s)))"
    if "attemptsBelow s" "sorted (lastProcessedVideoTime (vb s) # frameTimesOf evs)"
    using run_attempts [OF that] by (simp add: attemptsBelow_def strict_sorted_distinct)
  then show ?thesis
    by (simp add: processVideoFrames_def scheduleNextFrame_fields)
qed

theorem duplicate_frame_guard_witness:
  "enabled (vb firstFrameDone) \<and> localVideo firstFrameDone
   \<and> lastProcessedVideoTime (vb firstFrameDone) = 0
   \<and> attemptsBelow firstFramePending
   \<and> sorted (lastProcessedVideoTime (vb firstFramePending)
        # frameTimesOf
            [ProcessFrameSettles
               (Fulfilled (BlurredBackground 7) \<lparr> segmentationTime = 12, totalTime = 15 \<rparr>) 40,
             AnimationFrame 0, AnimationFrame 0, AnimationFrame (1 / 30)])
   \<and> inFlight (processVideoFrames 0 firstFrameDone) = 0
   \<and> processFrameTimes
        (effects
           (run [ProcessFrameSettles
                   (Fulfilled (BlurredBackground 7) \<lparr> segmentationTime = 12, totalTime = 15 \<rparr>)
                   40,
                 AnimationFrame 0, AnimationFrame 0, AnimationFrame (1 / 30)]
              firstFramePending)) = [0, 1 / 30]"
proof -
  have a: "enabled (vb firstFrameDone) \<and> localVideo firstFrameDone
      \<and> lastProcessedVideoTime (vb firstFrameDone) = 0 \<and> inFlight firstFrameDone = 0"
    by (simp add: firstFrameDone_def firstFramePending_def enabledSystem_def loop_defs Let_def)
  have b: "attemptsBelow firstFramePending
      \<and> lastProcessedVideoTime (vb firstFramePending) = 0"
    by (simp add: attemptsBelow_def firstFramePending_def enabledSystem_def loop_defs Let_def)
  have c: "processFrameTimes
        (effects
           (run [ProcessFrameSettles
                   (Fulfilled (BlurredBackground 7) \<lparr> segmentationTime = 12, totalTime = 15 \<rparr>)
                   40,
                 AnimationFrame 0, AnimationFrame 0, AnimationFrame (1 / 30)]
              firstFramePending)) = [0, 1 / 30]"
    by (simp add: firstFramePending_def enabledSystem_def loop_defs Let_def)
  show ?thesis
    using a b c
      duplicate_frame_guard [of firstFrameDone 0 "[]"]
      duplicate_frame_guard [of firstFramePending 0
        "[ProcessFrameSettles
            (Fulfilled (BlurredBackground 7) \<lparr> segmentationTime = 12, totalTime = 15 \<rparr>) 40,
          AnimationFrame 0, AnimationFrame 0, AnimationFrame (1 / 30)]"]
    by (simp add: scheduleNextFrame_fields)
qed

text \<open>
  The claim as stated fails where it has the loop re-render the previous output: on a
  tick at the video time already processed, the only effect is the request for the next
  animation frame.
\<close>

theorem duplicate_tick_renders_nothing_counterexample:
  "lastProcessedVideoTime (vb firstFrameDone) = 0
   \<and> effects (step (AnimationFrame 0) firstFrameDone) =
       effects firstFrameDone @ [RequestAnimationFrame 2]"
  by (simp add: firstFrameDone_def firstFramePending_def enabledSystem_def loop_defs Let_def)






section \<open>Enabling the effect\<close>

lemma loadFailed_fields:
  "fst (loadFailed msg s) = False"
  "pendingFrames (snd (loadFailed msg s)) = pendingFrames s"
  "inFlight (snd (loadFailed msg s)) = inFlight s"
  "enabled (vb (snd (loadFailed msg s))) = enabled (vb s)"
  "effects (snd (loadFailed msg s)) =
     effects s @ [UpdateDebugInfo (''Error initializing model: '' @ msg),
                  ShowAlert (''Could not initialize '' @ model (vb s) @ '' model.'') ''error'']"
  by (simp_all add: loadFailed_def showAlert_def updateDebugInfo_def addEffect_def)

lemma loadSelectedModel_loop:
  "pendingFrames (snd (loadSelectedModel None importOk out s)) = pendingFrames s"
  "inFlight (snd (loadSelectedModel None importOk out s)) = inFlight s"
  "enabled (vb (snd (loadSelectedModel None importOk out s))) = enabled (vb s)"
  by (simp_all add: loadSelectedModel_def Let_def loadFailed_def showAlert_def
      updateDebugInfo_def addEffect_def split: option.splits prod.splits initOutcome.splits)

lemma loadSelectedModel_fst:
  "fst (loadSelectedModel None (envImportOk env) (envInitOutcome env) s) = (\<not> loadFails env s)"
  by (auto simp: loadSelectedModel_def Let_def loadFailed_def loadFails_def addEffect_def
      split: option.splits prod.splits initOutcome.splits)

lemma loadSelectedModel_processFrameTimes:
  "processFrameTimes (effects (snd (loadSelectedModel None importOk out s))) =
   processFrameTimes (effects s)"
  by (simp add: loadSelectedModel_def Let_def loadFailed_def showAlert_def
      updateDebugInfo_def addEffect_def processFrameTimes_append
      split: option.splits prod.splits initOutcome.splits)

lemma loadSelectedModel_alerts:
  "loadFails env s \<Longrightarrow>
   alertsOf (effects (snd (loadSelectedModel None (envImportOk env) (envInitOutcome env) s))) =
     alertsOf (effects s)
       @ (if initResolvesFalse env s then []
          else [(''Could not initialize '' @ model (vb s) @ '' model.'', ''error'')])"
  by (auto simp: loadSelectedModel_def Let_def loadFailed_def showAlert_def loadFails_def
      initResolvesFalse_def updateDebugInfo_def addEffect_def alertsOf_append
      split: option.splits prod.splits initOutcome.splits)

lemma beginEnable_fields:
  "modelFactory (beginEnable env s) = modelFactory s"
  "model (vb (beginEnable env s)) = model (vb s)"
  "pendingFrames (beginEnable env s) = pendingFrames s"
  "inFlight (beginEnable env s) = inFlight s"
  "effects (beginEnable env s) = effects s"
  "enabled (vb (beginEnable env s)) = enabled (vb s)"
  by (simp_all add: beginEnable_def)

lemma loadFails_beginEnable: "loadFails env (beginEnable env s) = loadFails env s"
  by (simp add: loadFails_def beginEnable_fields cong: option.case_cong)

lemma initResolvesFalse_beginEnable:
  "initResolvesFalse env (beginEnable env s) = initResolvesFalse env s"
  by (simp add: initResolvesFalse_def beginEnable_fields cong: option.case_cong)

lemma toggle_enable_failed:
  assumes "\<not> enabled (vb s)" and "loadFails env s"
  shows "toggle env s =
     (Completed,
      abortEnable (snd (loadSelectedModel None (envImportOk env) (envInitOutcome env)
        (beginEnable env (s \<lparr> vb := (vb s) \<lparr> enabled := True \<rparr> \<rparr>)))))"
proof -
  let ?s0 = "s \<lparr> vb := (vb s) \<lparr> enabled := True \<rparr> \<rparr>"
  let ?r = "loadSelectedModel None (envImportOk env) (envInitOutcome env) (beginEnable env ?s0)"
  have "loadFails env ?s0" using assms(2) by (simp add: loadFails_def cong: option.case_cong)
  then have "fst ?r = False"
    by (simp add: loadSelectedModel_fst loadFails_beginEnable)
  then obtain s1 where r: "?r = (False, s1)" by (cases ?r) simp
  show ?thesis
    using assms(1) by (simp add: toggle_def toggleOn_def r)
qed

lemma abortEnable_fields:
  "\<not> enabled (vb (abortEnable s))"
  "pendingFrames (abortEnable s) = pendingFrames s"
  "inFlight (abortEnable s) = inFlight s"
  "effects (abortEnable s) = effects s"
  by (simp_all add: abortEnable_def)

text \<open>
  Whenever the load started by \<^verbatim>\<open>toggle\<close> fails, the effect is disabled again and no
  frame loop is started; the error alert is shown unless \<^verbatim>\<open>init()\<close> resolved to
  \<^verbatim>\<open>false\<close>.
\<close>

lemma enable_failure:
  assumes "\<not> enabled (vb s)" and "loadFails env s"
  shows "fst (toggle env s) = Completed"
    and "\<not> enabled (vb (snd (toggle env s)))"
    and "pendingFrames (snd (toggle env s)) = pendingFrames s"
    and "inFlight (snd (toggle env s)) = inFlight s"
    and "processFrameTimes (effects (snd (toggle env s))) = processFrameTimes (effects s)"
    and "alertsOf (effects (snd (toggle env s))) =
           alertsOf (effects s)
             @ (if initResolvesFalse env s then []
                else [(''Could not initialize '' @ model (vb s) @ '' model.'', ''error'')])"
proof -
  let ?s0 = "s \<lparr> vb := (vb s) \<lparr> enabled := True \<rparr> \<rparr>"
  have f: "loadFails env (beginEnable env ?s0)"
    using assms(2) by (simp add: loadFails_beginEnable) (simp add: loadFails_def cong: option.case_cong)
  have i: "initResolvesFalse env (beginEnable env ?s0) = initResolvesFalse env s"
    by (simp add: initResolvesFalse_beginEnable) (simp add: initResolvesFalse_def cong: option.case_cong)
  note t = toggle_enable_failed [OF assms]
  show "fst (toggle env s) = Completed" by (simp add: t)
  show "\<not> enabled (vb (snd (toggle env s)))" by (simp add: t abortEnable_fields)
  show "pendingFrames (snd (toggle env s)) = pendingFrames s"
    by (simp add: t abortEnable_fields loadSelectedModel_loop beginEnable_fields)
  show "inFlight (snd (toggle env s)) = inFlight s"
    by (simp add: t abortEnable_fields loadSelectedModel_loop beginEnable_fields)
  show "processFrameTimes (effects (snd (toggle env s))) = processFrameTimes (effects s)"
    by (simp add: t abortEnable_fields loadSelectedModel_processFrameTimes beginEnable_fields)
  show "alertsOf (effects (snd (toggle env s))) =
           alertsOf (effects s)
             @ (if initResolvesFalse env s then []
                else [(''Could not initialize '' @ model (vb s) @ '' model.'', ''error'')])"
    unfolding t using loadSelectedModel_alerts [OF f]
    by (simp add: abortEnable_fields i beginEnable_fields)
qed

lemma idleSystem_load:
  "\<not> enabled (vb idleSystem) \<and> loadFails initFalseEnv idleSystem
   \<and> initResolvesFalse initFalseEnv idleSystem"
  by (simp add: idleSystem_def initFalseEnv_def loadFails_def initResolvesFalse_def
      fst_createModel bodyPixPreferred_def newFactory_def toLowerCase_def lowerChar_def)

lemma idleSystem_adapter:
  "fst (createModel (model (vb idleSystem)) emptyConfig (envImportOk initFalseEnv)
          bodyPixPreferred) = Some BodyPixModel"
  by (simp add: idleSystem_def initFalseEnv_def fst_createModel bodyPixPreferred_def
      newFactory_def toLowerCase_def lowerChar_def)

text \<open>
  Claim C5 (a failed initialisation keeps the loop disabled) where the adapter's
  \<^verbatim>\<open>init()\<close> resolves to \<^verbatim>\<open>false\<close>: with BodyPix selected, \<^verbatim>\<open>toggle\<close> creates a
  BodyPix adapter, completes with the effect disabled and no frame loop started, and
  shows no alert.
\<close>

theorem init_false_shows_no_error:
  "\<not> enabled (vb idleSystem)
   \<and> fst (createModel (model (vb idleSystem)) emptyConfig (envImportOk initFalseEnv)
          bodyPixPreferred) = Some BodyPixModel
   \<and> envInitOutcome initFalseEnv = InitFalse
   \<and> fst (toggle initFalseEnv idleSystem) = Completed
   \<and> \<not> enabled (vb (snd (toggle initFalseEnv idleSystem)))
   \<and> pendingFrames (snd (toggle initFalseEnv idleSystem)) = []
   \<and> inFlight (snd (toggle initFalseEnv idleSystem)) = 0
   \<and> processFrameTimes (effects (snd (toggle initFalseEnv idleSystem))) = []
   \<and> alertsOf (effects (snd (toggle initFalseEnv idleSystem))) = []"
proof -
  from idleSystem_load
  have a: "\<not> enabled (vb idleSystem)" "loadFails initFalseEnv idleSystem"
    and b: "initResolvesFalse initFalseEnv idleSystem" by simp_all
  have c: "pendingFrames idleSystem = []" "inFlight idleSystem = 0" "effects idleSystem = []"
    by (simp_all add: idleSystem_def)
  have d: "envInitOutcome initFalseEnv = InitFalse" by (simp add: initFalseEnv_def)
  show ?thesis
    using enable_failure [OF a] a(1) b c d idleSystem_adapter by simp
qed

section \<open>Disabling the effect\<close>

lemma step_enabled: "enabled (vb (step ev s)) = enabled (vb s)"
  by (cases ev)
    (auto simp: loop_defs Let_def split: list.splits option.splits settlement.splits)

lemma step_disabled:
  "\<not> enabled (vb s) \<Longrightarrow> processFrameTimes (effects (step ev s)) = processFrameTimes (effects s)"
  by (cases ev)
    (simp_all add: step_def processVideoFrames_def cancelScheduledFrame_attempts
      processFrameSettled_attempts split: list.splits)

lemma run_disabled:
  "\<not> enabled (vb s) \<Longrightarrow> processFrameTimes (effects (run evs s)) = processFrameTimes (effects s)"
proof (induction evs arbitrary: s)
  case Nil
  then show ?case by simp
next
  case (Cons ev evs)
  then have "\<not> enabled (vb (step ev s))" by (simp add: step_enabled)
  from Cons.IH [OF this] Cons.prems show ?case by (simp add: step_disabled)
qed

lemma find_replaceVideoSender:
  "trackKind t = ''video'' \<Longrightarrow>
   find isVideoSender (replaceVideoSender t senders) =
     (if find isVideoSender senders = None then None else Some (Some t))"
  by (induction t senders rule: replaceVideoSender.induct) (simp_all add: isVideoSender_def)

lemma toggle_off:
  assumes "enabled (vb s)"
  shows "toggle env s = (Completed, toggleOff (s \<lparr> vb := (vb s) \<lparr> enabled := False \<rparr> \<rparr>))"
  using assms by (simp add: toggle_def)

lemma toggleOff_fields:
  "enabled (vb (toggleOff s)) = enabled (vb s)"
  "activeModel (vb (toggleOff s)) = activeModel (vb s)"
  "animationFrame (vb (toggleOff s)) = None"
  "effects (toggleOff s) =
     effects s @ (case animationFrame (vb s) of Some h \<Rightarrow> [CancelAnimationFrame h] | None \<Rightarrow> [])
       @ [UpdateDebugInfo ''Virtual background disabled'']"
  "pendingFrames (toggleOff s) =
     (case animationFrame (vb s) of Some h \<Rightarrow> removeAll h (pendingFrames s)
      | None \<Rightarrow> pendingFrames s)"
  "srcObject (toggleOff s) = (case stream (vb s) of Some st \<Rightarrow> Some st | None \<Rightarrow> srcObject s)"
  "peerSenders (toggleOff s) =
     (case stream (vb s) of
        Some st \<Rightarrow>
          (case videoTracks st of
             originalVideoTrack # rest \<Rightarrow>
               map_option (replaceVideoSender originalVideoTrack) (peerSenders s)
           | [] \<Rightarrow> peerSenders s)
      | None \<Rightarrow> peerSenders s)"
  by (simp_all add: toggleOff_def Let_def updateDebugInfo_def addEffect_def
      cancelScheduledFrame_def replaceOutgoingVideo_def
      split: option.splits list.splits)

text \<open>
  Claim C7 (stopping restores the call), as the code has it. Disabling the effect
  completes with the effect off and cancels the animation frame last requested; from
  then on the loop never calls \<^verbatim>\<open>processFrame\<close>. When the camera stream was saved at
  enabling, it becomes the source of the local video element again, and its first video
  track replaces the track of the first video sender of the peer connection. The active
  adapter is kept as it is: it is not disposed.
\<close>

theorem disable_restores_call:
  assumes "enabled (vb s)"
  shows "fst (toggle env s) = Completed
       \<and> \<not> enabled (vb (snd (toggle env s)))
       \<and> activeModel (vb (snd (toggle env s))) = activeModel (vb s)
       \<and> effects (snd (toggle env s)) =
           effects s
             @ (case animationFrame (vb s) of Some h \<Rightarrow> [CancelAnimationFrame h] | None \<Rightarrow> [])
             @ [UpdateDebugInfo ''Virtual background disabled'']
       \<and> animationFrame (vb (snd (toggle env s))) = None
       \<and> pendingFrames (snd (toggle env s)) =
           (case animationFrame (vb s) of Some h \<Rightarrow> removeAll h (pendingFrames s)
            | None \<Rightarrow> pendingFrames s)
       \<and> processFrameTimes (effects (run evs (snd (toggle env s)))) =
           processFrameTimes (effects s)
       \<and> srcObject (snd (toggle env s)) =
           (case stream (vb s) of Some st \<Rightarrow> Some st | None \<Rightarrow> srcObject s)
       \<and> peerSenders (snd (toggle env s)) =
           (case stream (vb s) of
              Some st \<Rightarrow>
                (case videoTracks st of
                   originalVideoTrack # rest \<Rightarrow>
                     map_option (replaceVideoSender originalVideoTrack) (peerSenders s)
                 | [] \<Rightarrow> peerSenders s)
            | None \<Rightarrow> peerSenders s)
       \<and> (trackKind t = ''video'' \<longrightarrow>
            find isVideoSender (replaceVideoSender t senders) =
              (if find isVideoSender senders = None then None else Some (Some t)))"
proof -
  let ?s0 = "s \<lparr> vb := (vb s) \<lparr> enabled := False \<rparr> \<rparr>"
  note t = toggle_off [OF assms, of env]
  have d: "\<not> enabled (vb (toggleOff ?s0))" by (simp add: toggleOff_fields)
  have e: "effects (toggleOff ?s0) =
           effects s
             @ (case animationFrame (vb s) of Some h \<Rightarrow> [CancelAnimationFrame h] | None \<Rightarrow> [])
             @ [UpdateDebugInfo ''Virtual background disabled'']"
    by (simp add: toggleOff_fields)
  have r: "processFrameTimes (effects (run evs (toggleOff ?s0))) = processFrameTimes (effects s)"
    using run_disabled [OF d, of evs]
    by (simp add: e processFrameTimes_append split: option.splits)
  show ?thesis
    unfolding t using d e r
    by (simp add: toggleOff_fields find_replaceVideoSender
        cong: option.case_cong list.case_cong)
qed

lemma firstFrameDone_fields: "enabled (vb firstFrameDone) \<and> activeModel (vb firstFrameDone) =
       Some \<lparr> adapterId = 0, adapterKind = MediaPipeModel \<rparr>
    \<and> animationFrame (vb firstFrameDone) = Some 1 \<and> pendingFrames firstFrameDone = [1]
    \<and> stream (vb firstFrameDone) = Some cameraStream
    \<and> peerSenders firstFrameDone = Some [Some microphoneTrack, Some canvasTrack]"
  by (simp add: firstFrameDone_def firstFramePending_def enabledSystem_def loop_defs Let_def)

theorem disable_restores_call_witness:
  "enabled (vb firstFrameDone)
   \<and> trackKind cameraTrack = ''video''
   \<and> \<not> enabled (vb (snd (toggle initFalseEnv firstFrameDone)))
   \<and> pendingFrames (snd (toggle initFalseEnv firstFrameDone)) = []
   \<and> srcObject (snd (toggle initFalseEnv firstFrameDone)) = Some cameraStream
   \<and> peerSenders (snd (toggle initFalseEnv firstFrameDone)) =
       Some [Some microphoneTrack, Some cameraTrack]
   \<and> find isVideoSender
        (replaceVideoSender cameraTrack [Some microphoneTrack, Some canvasTrack]) =
       Some (Some cameraTrack)"
proof -
  from firstFrameDone_fields have h: "enabled (vb firstFrameDone)" by simp
  have k: "trackKind cameraTrack = ''video''" by (simp add: cameraTrack_def)
  show ?thesis
    using firstFrameDone_fields k
      disable_restores_call [OF h, of initFalseEnv "[]" cameraTrack
        "[Some microphoneTrack, Some canvasTrack]"]
    by (simp add: cameraStream_def microphoneTrack_def canvasTrack_def isVideoSender_def)
qed

text \<open>
  The claim as stated fails where it has the active backend disposed: after disabling,
  the adapter is still the active model and no \<^verbatim>\<open>dispose\<close> was called on it.
\<close>

theorem disable_keeps_backend_counterexample:
  "activeModel (vb firstFrameDone) = Some \<lparr> adapterId = 0, adapterKind = MediaPipeModel \<rparr>
   \<and> activeModel (vb (snd (toggle initFalseEnv firstFrameDone))) =
       Some \<lparr> adapterId = 0, adapterKind = MediaPipeModel \<rparr>
   \<and> effects (snd (toggle initFalseEnv firstFrameDone)) =
       effects firstFrameDone
         @ [CancelAnimationFrame 1, UpdateDebugInfo ''Virtual background disabled'']"
  using firstFrameDone_fields by (simp add: toggle_off toggleOff_fields)


section \<open>Restarting the effect while a call is pending\<close>

text \<open>
  \<^verbatim>\<open>createModel\<close> leaves the stored preference as it is.
\<close>

lemma userPreferredModel_fallbackModel:
  "userPreferredModel (snd (fallbackModel importOk f)) = userPreferredModel f"
  by (simp add: fallbackModel_def debugCallback_def)

lemma userPreferredModel_importModel:
  "userPreferredModel (snd (importModel cls modelType importOk f)) = userPreferredModel f"
  by (simp add: importModel_def userPreferredModel_fallbackModel debugCallback_def)

lemma userPreferredModel_createModel:
  "userPreferredModel (snd (createModel modelType options importOk f)) = userPreferredModel f"
  unfolding createModel_def Let_def
  by (simp add: userPreferredModel_importModel userPreferredModel_debugCallback
      split: option.splits)

text \<open>
  The definitions unfolded to evaluate \<^verbatim>\<open>toggle\<close> and the loop on the example systems.
\<close>

lemmas toggle_defs = toggle_def toggleOn_def toggleOff_def beginEnable_def abortEnable_def
  completeEnable_def loadSelectedModel_def loadFailed_def showAlert_def
  replaceOutgoingVideo_def sourceFrameRate_def mathRound_def

lemmas reload_defs = reloadTry_def resetAndSaveMetrics_def

lemmas example_defs = enabledSystem_def cameraStream_def cameraTrack_def
  microphoneTrack_def canvasTrack_def newFactory_def emptyConfig_def initTrueEnv_def
  reloadTrueEnv_def

lemmas eval_simps = toggle_defs loop_defs example_defs Let_def prod.case_eq_if
  fst_createModel userPreferredModel_createModel selectOptimalModel_mediapipe
  toLowerCase_def lowerChar_def

lemma firstFramePending_value:
  "firstFramePending =
     enabledSystem
       \<lparr> vb := (vb enabledSystem) \<lparr> lastProcessedVideoTime := 0 \<rparr>,
         inFlight := 1, effects := [ProcessFrame 0 0 ''blur'' None] \<rparr>"
  by (simp add: firstFramePending_def enabledSystem_def loop_defs Let_def)

text \<open>
  A call of \<^verbatim>\<open>toggle\<close> adds at most one to the unsettled \<^verbatim>\<open>processFrame\<close> calls and
  the animation-frame callbacks held by the browser. So when the effect is enabled with
  no call pending and no callback held, they are at most one together, and stay so over
  every run of the loop.
\<close>

lemma toggleOff_inFlight: "inFlight (toggleOff s) = inFlight s"
  by (simp add: toggleOff_def Let_def updateDebugInfo_def addEffect_fields
      cancelScheduledFrame_fields replaceOutgoingVideo_def split: option.splits list.splits)

lemma completeEnable_count:
  "inFlight (snd (completeEnable env s)) + length (pendingFrames (snd (completeEnable env s))) \<le>
   inFlight s + length (pendingFrames s) + 1"
proof (cases "srcObject s")
  case None
  then show ?thesis by (simp add: completeEnable_def)
next
  case (Some src)
  then show ?thesis
    apply (simp add: completeEnable_def Let_def updateDebugInfo_def addEffect_fields)
    apply (rule order_trans [OF processVideoFrames_count])
    apply (simp add: replaceOutgoingVideo_def addEffect_fields split: option.splits)
    done
qed

lemma toggleOn_count:
  "inFlight (snd (toggleOn env s)) + length (pendingFrames (snd (toggleOn env s))) \<le>
   inFlight s + length (pendingFrames s) + 1"
proof -
  obtain b s1 where l:
    "loadSelectedModel None (envImportOk env) (envInitOutcome env) (beginEnable env s) = (b, s1)"
    by (cases "loadSelectedModel None (envImportOk env) (envInitOutcome env) (beginEnable env s)")
  have "pendingFrames s1 = pendingFrames s" "inFlight s1 = inFlight s"
    using loadSelectedModel_loop(1,2) [of "envImportOk env" "envInitOutcome env" "beginEnable env s"]
    by (simp_all add: l beginEnable_fields)
  then show ?thesis
    using completeEnable_count [of env s1]
    by (cases b) (simp_all add: toggleOn_def l abortEnable_fields)
qed

lemma toggle_count:
  "inFlight (snd (toggle env s)) + length (pendingFrames (snd (toggle env s))) \<le>
   inFlight s + length (pendingFrames s) + 1"
proof (cases "enabled (vb s)")
  case True
  have "length (pendingFrames (toggleOff (s \<lparr> vb := (vb s) \<lparr> enabled := False \<rparr> \<rparr>))) \<le>
        length (pendingFrames s)"
    by (simp add: toggleOff_fields length_removeAll_less_eq split: option.splits)
  then show ?thesis
    using True by (simp add: toggle_off toggleOff_inFlight)
next
  case False
  then show ?thesis
    using toggleOn_count [of env "s \<lparr> vb := (vb s) \<lparr> enabled := True \<rparr> \<rparr>"]
    by (simp add: toggle_def)
qed

lemma first_enable_single_in_flight:
  assumes "inFlight s = 0" and "pendingFrames s = []"
  shows "inFlight (run evs (snd (toggle env s)))
           + length (pendingFrames (run evs (snd (toggle env s)))) \<le> 1"
proof -
  have "inFlight (snd (toggle env s)) + length (pendingFrames (snd (toggle env s))) \<le> 1"
    using toggle_count [of env s] assms by simp
  then show ?thesis by (rule run_count)
qed



section \<open>Selecting an unsupported model in the model lab\<close>

lemma firstFrameDone_value:
  "firstFrameDone =
     enabledSystem
       \<lparr> vb := (vb enabledSystem) \<lparr> lastProcessedVideoTime := 0, animationFrame := Some 1 \<rparr>,
         metrics := updatePerformanceMetrics 12 15 40 (resetMetrics 5 initialMetrics),
         pendingFrames := [1], nextHandle := 2,
         effects := [ProcessFrame 0 0 ''blur'' None, Drawn (BlurredBackground 7), RequestFrame,
                     RequestAnimationFrame 1] \<rparr>"
  by (simp add: firstFrameDone_def firstFramePending_value enabledSystem_def loop_defs Let_def
      canvasTrack_def)

lemma meet_rejected:
  "snd (setUserPreferredModel ''meet'' emptyConfig newFactory) =
     newFactory \<lparr> debugLog := [''Model meet is not implemented yet''] \<rparr>"
  by (simp add: setUserPreferredModel_def lookupModel_def availableModels_def
      toLowerCase_def lowerChar_def debugCallback_def newFactory_def)




text \<open>
  A reload of the background model with the effect enabled, when the new adapter loads
  and the effect can be enabled again; and a selection in the model lab whose reload
  returned.
\<close>

lemma reloadBackgroundModel_restart:
  assumes "enabled (vb s)"
    and "modelFactory (snd (toggle (reloadToggleEnv env) s)) = Some f"
    and "fst (reloadTry f env (snd (toggle (reloadToggleEnv env) s))) = None"
    and "fst (toggle (reloadToggleEnv env)
                (snd (reloadTry f env (snd (toggle (reloadToggleEnv env) s))))) = Completed"
  shows "reloadBackgroundModel env s =
           (Some True,
            snd (toggle (reloadToggleEnv env)
                   (snd (reloadTry f env (snd (toggle (reloadToggleEnv env) s))))))"
  using assms by (simp add: reloadBackgroundModel_def Let_def prod.case_eq_if)

lemma selectModel_reloaded:
  assumes "modelFactory s = Some f" and "modelId \<noteq> ''auto''"
    and "fst (reloadBackgroundModel env
                ((updateDebugInfo (''Selecting model: '' @ modelId @ '' with config:'') s)
                   \<lparr> modelFactory := Some (snd (setUserPreferredModel modelId cfg f)) \<rparr>)) =
         Some b"
  shows "selectModel modelId cfg env s =
           updateDebugInfo (''Model changed to '' @ modelId @ '' successfully'')
             (snd (reloadBackgroundModel env
                ((updateDebugInfo (''Selecting model: '' @ modelId @ '' with config:'') s)
                   \<lparr> modelFactory := Some (snd (setUserPreferredModel modelId cfg f)) \<rparr>)))"
  using assms
  by (simp add: selectModel_def Let_def prod.case_eq_if updateDebugInfo_def addEffect_def)

lemma meet_selected:
  "selectModel ''meet'' emptyConfig reloadTrueEnv firstFrameDone =
     updateDebugInfo ''Model changed to meet successfully''
       (snd (toggle initTrueEnv
          (snd (reloadTry (newFactory \<lparr> debugLog := [''Model meet is not implemented yet''] \<rparr>)
                  reloadTrueEnv
                  (snd (toggle initTrueEnv
                     ((updateDebugInfo ''Selecting model: meet with config:'' firstFrameDone)
                        \<lparr> modelFactory :=
                            Some (newFactory
                              \<lparr> debugLog := [''Model meet is not implemented yet''] \<rparr>) \<rparr>)))))))"
proof -
  let ?f = "newFactory \<lparr> debugLog := [''Model meet is not implemented yet''] \<rparr>"
  let ?x = "(updateDebugInfo ''Selecting model: meet with config:'' firstFrameDone)
              \<lparr> modelFactory := Some ?f \<rparr>"
  have e: "reloadToggleEnv reloadTrueEnv = initTrueEnv" by (simp add: reloadTrueEnv_def)
  have 1: "enabled (vb ?x)"
    by (simp add: firstFrameDone_value enabledSystem_def updateDebugInfo_def addEffect_def)
  have 2: "modelFactory (snd (toggle initTrueEnv ?x)) = Some ?f"
    unfolding firstFrameDone_value by (simp add: eval_simps)
  have 3: "fst (reloadTry ?f reloadTrueEnv (snd (toggle initTrueEnv ?x))) = None"
    unfolding firstFrameDone_value by (simp add: reload_defs eval_simps)
  have 4: "fst (toggle initTrueEnv
                  (snd (reloadTry ?f reloadTrueEnv (snd (toggle initTrueEnv ?x))))) = Completed"
    unfolding firstFrameDone_value by (simp add: reload_defs eval_simps)
  have r: "reloadBackgroundModel reloadTrueEnv ?x =
      (Some True,
       snd (toggle initTrueEnv (snd (reloadTry ?f reloadTrueEnv (snd (toggle initTrueEnv ?x))))))"
    using reloadBackgroundModel_restart [of ?x reloadTrueEnv ?f] 1 2 3 4 by (simp only: e)
  have m: "modelFactory firstFrameDone = Some newFactory"
    by (simp add: firstFrameDone_value enabledSystem_def)
  show ?thesis
    using selectModel_reloaded [of firstFrameDone newFactory "''meet''" reloadTrueEnv emptyConfig True]
    by (simp add: m meet_rejected r)
qed

text \<open>
  The claim of no silent downgrade (C6) fails as stated in two places. \<^verbatim>\<open>createModel\<close>
  does not reject: asked for the planned model \<^verbatim>\<open>meet\<close>, it yields a MediaPipe adapter.
  And the running backend does not keep running when the rejected selection is made
  through \<^verbatim>\<open>ModelLabUI._selectModel\<close>, which does not read the value returned by
  \<^verbatim>\<open>setUserPreferredModel\<close> and reloads the background model in either case: with
  adapter 0 running, the selection of \<^verbatim>\<open>meet\<close> disposes adapter 0, and the effect ends
  up running on the newly created adapter 2, under the message that the model was
  changed to \<^verbatim>\<open>meet\<close>. (The buttons of the model lab are disabled for planned models and
  for variants that need SIMD on a host without it; the function itself makes no such
  check.)
\<close>

theorem selection_reloads_counterexample:
  "unsupportedSelection newFactory ''meet'' emptyConfig
   \<and> fst (createModel ''meet'' emptyConfig (\<lambda>cls. True) newFactory) = Some MediaPipeModel
   \<and> enabled (vb firstFrameDone) \<and> modelFactory firstFrameDone = Some newFactory
   \<and> activeModel (vb firstFrameDone) = Some \<lparr> adapterId = 0, adapterKind = MediaPipeModel \<rparr>
   \<and> activeModel (vb (selectModel ''meet'' emptyConfig reloadTrueEnv firstFrameDone)) =
       Some \<lparr> adapterId = 2, adapterKind = MediaPipeModel \<rparr>
   \<and> disposedModels (effects (selectModel ''meet'' emptyConfig reloadTrueEnv firstFrameDone)) =
       [0, 1]
   \<and> last (effects (selectModel ''meet'' emptyConfig reloadTrueEnv firstFrameDone)) =
       UpdateDebugInfo ''Model changed to meet successfully''"
proof -
  have a: "unsupportedSelection newFactory ''meet'' emptyConfig
      \<and> fst (createModel ''meet'' emptyConfig (\<lambda>cls. True) newFactory) = Some MediaPipeModel"
    by (simp add: unsupportedSelection_iff fst_createModel toLowerCase_def lowerChar_def
        newFactory_def)
  have b: "enabled (vb firstFrameDone) \<and> modelFactory firstFrameDone = Some newFactory
      \<and> activeModel (vb firstFrameDone) = Some \<lparr> adapterId = 0, adapterKind = MediaPipeModel \<rparr>"
    by (simp add: firstFrameDone_value enabledSystem_def)
  have c: "activeModel (vb (selectModel ''meet'' emptyConfig reloadTrueEnv firstFrameDone)) =
       Some \<lparr> adapterId = 2, adapterKind = MediaPipeModel \<rparr>
   \<and> disposedModels (effects (selectModel ''meet'' emptyConfig reloadTrueEnv firstFrameDone)) =
       [0, 1]
   \<and> last (effects (selectModel ''meet'' emptyConfig reloadTrueEnv firstFrameDone)) =
       UpdateDebugInfo ''Model changed to meet successfully''"
    unfolding meet_selected
    unfolding firstFrameDone_value
    by (simp add: reload_defs eval_simps)
  from a b c show ?thesis by simp
qed


section \<open>Displayed frame rate\<close>














end
